theory Spec2Isabelle
  imports Complex_Main
begin

section \<open>Lead-scoring training pipeline: utils.py\<close>

text \<open>
  The module has two functions, \<open>encode_features\<close> and \<open>get_trained_model\<close>. Both work
  on a SQLite store through pandas, the second one also on an MLflow tracking server
  through scikit-learn and LightGBM. The constants of
  \<open>Lead_scoring_training_pipeline.constants\<close> are parameters of the model (the record
  \<open>config\<close>); the library calls are modelled by what they do to tables of cells.
\<close>

subsection \<open>Tables\<close>

text \<open>
  A cell is what pandas holds after reading a SQLite value: a null (\<open>None\<close>/\<open>NaN\<close>), an
  integer or a text. The numbers of the store are integers: a table does not hold
  a fractional value. pandas reads a column of integers and nulls as a column of floats;
  its cells are written \<open>IntV i\<close> all the same, \<open>i\<close> being the number, and the two
  places where the kind of the column shows, the label of a one-hot column and the type
  of a column in the store, are modelled from the content of the column. A frame has a
  row index, which in this module is always \<open>0, ..., nrows - 1\<close> or empty, and a list
  of named columns in column order.
\<close>

datatype cell = Null | IntV int | StrV string

type_synonym series = "cell list"

record frame =
  nrows :: nat
  cols :: "(string \<times> series) list"

text \<open>
  The exceptions of the module's calls, by class. \<open>DatabaseError\<close> stands for the
  failures of the database layer: the error of \<open>sqlite3\<close> when SQLite refuses a
  statement, and the error into which \<open>read_sql\<close> wraps it.
\<close>

datatype error = KeyError | ValueError | IndexError | DatabaseError

definition columns :: "frame \<Rightarrow> string list" where
  "columns fr = map fst (cols fr)"

definition wf_frame :: "frame \<Rightarrow> bool" where
  "wf_frame fr = (distinct (columns fr) \<and> list_all (\<lambda>c. length (snd c) = nrows fr) (cols fr))"

text \<open>\<open>pd.DataFrame(columns=names)\<close>: the named columns over an empty index.\<close>

definition DataFrame :: "string list \<Rightarrow> frame" where
  "DataFrame names = \<lparr>nrows = 0, cols = map (\<lambda>c. (c, [])) names\<rparr>"

text \<open>\<open>pd.DataFrame()\<close>: no column, no row.\<close>

definition empty_frame :: frame where
  "empty_frame = \<lparr>nrows = 0, cols = []\<rparr>"

text \<open>
  Aligning a column to an index of \<open>n\<close> rows: the labels the column has are kept, the
  others are null.
\<close>

definition reindex :: "nat \<Rightarrow> series \<Rightarrow> series" where
  "reindex n v = take n v @ replicate (n - length v) Null"

subsection \<open>One-hot expansion\<close>

text \<open>Python's \<open>str\<close> of an integer.\<close>

fun digits :: "nat \<Rightarrow> string" where
  "digits n = (if n < 10 then [char_of (48 + n)]
               else digits (n div 10) @ [char_of (48 + n mod 10)])"

declare digits.simps [simp del]

definition str_int :: "int \<Rightarrow> string" where
  "str_int i = (if i < 0 then CHR ''-'' # digits (nat (- i)) else digits (nat i))"

fun is_int :: "cell \<Rightarrow> bool" where
  "is_int (IntV i) = True"
| "is_int x = False"

fun is_text :: "cell \<Rightarrow> bool" where
  "is_text (StrV s) = True"
| "is_text x = False"

text \<open>
  \<open>read_sql\<close> makes a column of integers with at least one null a \<open>float64\<close> column;
  a column without null is \<open>int64\<close>, a column holding a text is a column of objects, in
  which the integers stay integers.
\<close>

definition float64 :: "series \<Rightarrow> bool" where
  "float64 s = (Null \<in> set s \<and> list_ex is_int s \<and> \<not> list_ex is_text s)"

text \<open>
  The label that \<open>get_dummies\<close> gives a one-hot column is the category itself: an
  integer, a float or a text. \<open>add_prefix\<close> formats it with \<open>str\<close>: a float that is
  a whole number prints with \<open>.0\<close> (for the numbers below \<open>10^16\<close>, which are all that
  the model follows; from there on Python prints an exponent).
\<close>

datatype category = Int_cat int | Float_cat int | Str_cat string

fun category_of :: "bool \<Rightarrow> cell \<Rightarrow> category" where
  "category_of fl (IntV i) = (if fl then Float_cat i else Int_cat i)"
| "category_of fl (StrV s) = Str_cat s"
| "category_of fl Null = Str_cat ''nan''"

fun str_category :: "category \<Rightarrow> string" where
  "str_category (Int_cat i) = str_int i"
| "str_category (Float_cat i) = str_int i @ ''.0''"
| "str_category (Str_cat s) = s"

text \<open>
  The categories of a column are its distinct non-null values, integers before texts,
  each kind in ascending order. \<open>get_dummies\<close> makes one indicator column per category;
  a null cell has no category. The indicators are written as the integers 1 and 0, which
  is how the store holds them, whether pandas makes them booleans or bytes.
\<close>

fun str_le :: "string \<Rightarrow> string \<Rightarrow> bool" where
  "str_le [] t = True"
| "str_le (a # s) [] = False"
| "str_le (a # s) (b # t) = (if a = b then str_le s t else (of_char a :: nat) < of_char b)"

fun cell_le :: "cell \<Rightarrow> cell \<Rightarrow> bool" where
  "cell_le Null y = True"
| "cell_le (IntV i) Null = False"
| "cell_le (IntV i) (IntV j) = (i \<le> j)"
| "cell_le (IntV i) (StrV t) = True"
| "cell_le (StrV s) (StrV t) = str_le s t"
| "cell_le (StrV s) y = False"

fun insert_cell :: "cell \<Rightarrow> cell list \<Rightarrow> cell list" where
  "insert_cell x [] = [x]"
| "insert_cell x (y # ys) = (if cell_le x y then x # y # ys else y # insert_cell x ys)"

definition categories :: "series \<Rightarrow> cell list" where
  "categories s = foldr insert_cell (remdups (filter (\<lambda>x. x \<noteq> Null) s)) []"

definition get_dummies :: "series \<Rightarrow> (category \<times> series) list" where
  "get_dummies s =
     map (\<lambda>c. (category_of (float64 s) c, map (\<lambda>x. IntV (if x = c then 1 else 0)) s))
         (categories s)"

definition add_prefix :: "string \<Rightarrow> (category \<times> series) list \<Rightarrow> (string \<times> series) list" where
  "add_prefix p d = map (\<lambda>(c, v). (p @ str_category c, v)) d"

text \<open>
  \<open>pd.concat([placeholder_df, encoded], axis=1)\<close>: the columns of both, over the union
  of the two indexes.
\<close>

definition concat_cols :: "frame \<Rightarrow> nat \<Rightarrow> (string \<times> series) list \<Rightarrow> frame" where
  "concat_cols ph n enc =
     (let m = max (nrows ph) n
      in \<lparr>nrows = m, cols = map (\<lambda>(c, v). (c, reindex m v)) (cols ph @ enc)\<rparr>)"

subsection \<open>Column assignment\<close>

text \<open>
  \<open>frame[k] = v\<close> for a Series \<open>v\<close>: a frame whose index is empty takes the index of a
  non-empty \<open>v\<close>; every column named \<open>k\<close> becomes \<open>v\<close> aligned to the index, and a name
  the frame does not have is appended.
\<close>

definition setitem :: "frame \<Rightarrow> string \<Rightarrow> series \<Rightarrow> frame" where
  "setitem fr k v =
     (let n = (if nrows fr = 0 then length v else nrows fr);
          cs = map (\<lambda>(c, old). (c, reindex n (if c = k then v else old))) (cols fr)
      in \<lparr>nrows = n, cols = (if k \<in> set (columns fr) then cs else cs @ [(k, reindex n v)])\<rparr>)"

text \<open>
  \<open>frame[k] = d\<close> for a DataFrame \<open>d\<close> (what \<open>placeholder_df[k]\<close> is when several
  generated columns are named \<open>k\<close>): the columns named \<open>k\<close> are set in order, and the
  assignment raises when their number is not that of \<open>d\<close>.
\<close>

fun set_positional :: "string \<Rightarrow> nat \<Rightarrow> series list \<Rightarrow> (string \<times> series) list \<Rightarrow> (string \<times> series) list" where
  "set_positional k n vs [] = []"
| "set_positional k n vs ((c, old) # rest) =
     (if c = k then (case vs of [] \<Rightarrow> (c, reindex n old) # set_positional k n vs rest
                      | v # vs' \<Rightarrow> (c, reindex n v) # set_positional k n vs' rest)
      else (c, reindex n old) # set_positional k n vs rest)"

definition setitem_frame :: "frame \<Rightarrow> string \<Rightarrow> nat \<Rightarrow> series list \<Rightarrow> error + frame" where
  "setitem_frame fr k m vs =
     (if length (filter (\<lambda>c. c = k) (columns fr)) \<noteq> length vs then Inl ValueError
      else let n = (if nrows fr = 0 then m else nrows fr)
           in Inr \<lparr>nrows = n, cols = set_positional k n vs (cols fr)\<rparr>)"

subsection \<open>The configuration\<close>

text \<open>
  The constants module is not part of the sources read here: its constants are the
  fields of this record.
\<close>

record config =
  FEATURES_TO_ENCODE :: "string list"
  ONE_HOT_ENCODED_FEATURES :: "string list"
  TRACKING_URI :: string
  EXPERIMENT :: string
  model_config :: "(string \<times> cell) list"

subsection \<open>encode_features\<close>

text \<open>
  The first loop: one-hot expansion of every configured feature into the side buffer.
  \<open>None\<close> is the branch that prints and returns.
\<close>

fun encode_loop :: "frame \<Rightarrow> string list \<Rightarrow> frame \<Rightarrow> frame option" where
  "encode_loop df [] ph = Some ph"
| "encode_loop df (feature # rest) ph =
     (case map_of (cols df) feature of
        Some s \<Rightarrow> encode_loop df rest
                    (concat_cols ph (nrows df) (add_prefix (feature @ ''_'') (get_dummies s)))
      | None \<Rightarrow> None)"

text \<open>The second loop, over the columns of \<open>encoded_df\<close>: two independent tests.\<close>

definition copy_input :: "frame \<Rightarrow> string \<Rightarrow> frame \<Rightarrow> frame" where
  "copy_input df feature enc =
     (case map_of (cols df) feature of Some s \<Rightarrow> setitem enc feature s | None \<Rightarrow> enc)"

definition copy_generated :: "frame \<Rightarrow> string \<Rightarrow> frame \<Rightarrow> error + frame" where
  "copy_generated ph feature enc =
     (case map snd (filter (\<lambda>c. fst c = feature) (cols ph)) of
        [] \<Rightarrow> Inr enc
      | [s] \<Rightarrow> Inr (setitem enc feature s)
      | vs \<Rightarrow> setitem_frame enc feature (nrows ph) vs)"

fun assemble_loop :: "frame \<Rightarrow> frame \<Rightarrow> string list \<Rightarrow> frame \<Rightarrow> error + frame" where
  "assemble_loop df ph [] enc = Inr enc"
| "assemble_loop df ph (feature # rest) enc =
     (case copy_generated ph feature (copy_input df feature enc) of
        Inl e \<Rightarrow> Inl e
      | Inr enc' \<Rightarrow> assemble_loop df ph rest enc')"

definition assemble :: "config \<Rightarrow> frame \<Rightarrow> frame \<Rightarrow> error + frame" where
  "assemble cfg df ph =
     assemble_loop df ph (ONE_HOT_ENCODED_FEATURES cfg) (DataFrame (ONE_HOT_ENCODED_FEATURES cfg))"

definition fillna :: "cell \<Rightarrow> frame \<Rightarrow> frame" where
  "fillna z fr = fr\<lparr>cols := map (\<lambda>(c, v). (c, map (\<lambda>x. if x = Null then z else x) v)) (cols fr)\<rparr>"

definition label :: string where
  "label = ''app_complete_flag''"

definition drop_column :: "string \<Rightarrow> frame \<Rightarrow> error + frame" where
  "drop_column k fr =
     (if k \<in> set (columns fr) then Inr (fr\<lparr>cols := filter (\<lambda>c. fst c \<noteq> k) (cols fr)\<rparr>)
      else Inl KeyError)"

definition getitem :: "string \<Rightarrow> frame \<Rightarrow> error + frame" where
  "getitem k fr =
     (if k \<in> set (columns fr) then Inr (fr\<lparr>cols := filter (\<lambda>c. fst c = k) (cols fr)\<rparr>)
      else Inl KeyError)"

subsection \<open>The store\<close>

text \<open>
  The type pandas declares for a column of the table it creates: \<open>INTEGER\<close> for a
  column whose cells, the nulls apart, are integers, \<open>TEXT\<close> for a column that holds a
  text, alone or beside integers, and for a column without a value. (A column of floats
  is declared \<open>REAL\<close>; the cells of the model being whole numbers, \<open>INTEGER\<close> stands
  for both.) SQLite stores an integer written to a \<open>TEXT\<close> column as the text of its
  digits; every other cell is stored as it is, and read back as it was stored.
\<close>

datatype sqltype = INTEGER | TEXT

definition sql_type_name :: "series \<Rightarrow> sqltype" where
  "sql_type_name v =
     (if list_ex is_int v \<and> \<not> list_ex is_text v then INTEGER else TEXT)"

fun stored :: "sqltype \<Rightarrow> cell \<Rightarrow> cell" where
  "stored TEXT (IntV i) = StrV (str_int i)"
| "stored t x = x"

definition insert_column :: "series \<Rightarrow> series" where
  "insert_column v = map (stored (sql_type_name v)) v"

definition inserted :: "frame \<Rightarrow> frame" where
  "inserted fr = fr\<lparr>cols := map (\<lambda>(c, v). (c, insert_column v)) (cols fr)\<rparr>"

text \<open>
  \<open>to_sql(name, conn, if_exists='replace', index=False)\<close> replaces the table. pandas
  refuses a column without a name or with a NUL in it when it builds the statement that
  creates the table, before it touches the store. It then drops the table of that name
  and creates the new one: SQLite refuses a table without columns, with more than 2000
  columns, or with two columns whose names are equal up to the case of ASCII letters,
  and the old table is gone by then.
\<close>

definition lower_char :: "char \<Rightarrow> char" where
  "lower_char c = (let n = (of_char c :: nat) in if 65 \<le> n \<and> n \<le> 90 then char_of (n + 32) else c)"

definition valid_names :: "frame \<Rightarrow> bool" where
  "valid_names fr = list_all (\<lambda>c. c \<noteq> [] \<and> CHR 0x00 \<notin> set c) (columns fr)"

definition sqlite_accepts :: "frame \<Rightarrow> bool" where
  "sqlite_accepts fr =
     (columns fr \<noteq> [] \<and> length (columns fr) \<le> 2000 \<and> valid_names fr
      \<and> distinct (map (map lower_char) (columns fr)))"

record world =
  store :: "string \<rightharpoonup> frame"
  stdout :: "string list"

definition to_sql :: "string \<Rightarrow> frame \<Rightarrow> world \<Rightarrow> (error \<times> world) + world" where
  "to_sql name fr w =
     (if \<not> valid_names fr then Inl (ValueError, w)
      else if \<not> sqlite_accepts fr then Inl (DatabaseError, w\<lparr>store := (store w)(name := None)\<rparr>)
      else Inr (w\<lparr>store := (store w)(name \<mapsto> inserted fr)\<rparr>))"

definition print :: "string \<Rightarrow> world \<Rightarrow> world" where
  "print s w = w\<lparr>stdout := stdout w @ [s]\<rparr>"

datatype outcome = Returned_None | Returned frame | Raised error

definition encode_features :: "config \<Rightarrow> world \<Rightarrow> outcome \<times> world" where
  "encode_features cfg w =
     (case store w ''model_input'' of
        None \<Rightarrow> (Raised DatabaseError, w)
      | Some df \<Rightarrow>
         (case encode_loop df (FEATURES_TO_ENCODE cfg) empty_frame of
            None \<Rightarrow> (Returned df, print ''Feature not found'' w)
          | Some placeholder_df \<Rightarrow>
             (case assemble cfg df placeholder_df of
                Inl e \<Rightarrow> (Raised e, w)
              | Inr encoded_df \<Rightarrow>
                 (case drop_column label (fillna (IntV 0) encoded_df) of
                    Inl e \<Rightarrow> (Raised e, w)
                  | Inr features \<Rightarrow>
                     (case getitem label (fillna (IntV 0) encoded_df) of
                        Inl e \<Rightarrow> (Raised e, w)
                      | Inr target \<Rightarrow>
                         (case to_sql ''features'' features w of
                            Inl (e, w1) \<Rightarrow> (Raised e, w1)
                          | Inr w1 \<Rightarrow>
                             (case to_sql ''target'' target w1 of
                                Inl (e, w2) \<Rightarrow> (Raised e, w2)
                              | Inr w2 \<Rightarrow> (Returned_None, w2))))))))"

subsection \<open>The collaborators of get_trained_model\<close>

text \<open>
  scikit-learn's splitter and metric functions, the LightGBM classifier and the MLflow
  client are libraries: they are the fields of the record \<open>libs\<close>, each a function
  that returns its value or the exception it raises. \<open>'m\<close> is the type of fitted
  models, \<open>'v\<close> the type of floating-point scores. The positional parameters of the
  metric functions are scikit-learn's \<open>(y_true, y_pred)\<close>, for \<open>roc_auc_score\<close>
  \<open>(y_true, y_score)\<close>, in this order. Of the four values that
  \<open>precision_recall_fscore_support\<close> returns the module reads the first three; the
  fourth, the support, is left out. \<open>train_test_split\<close> takes, after its
  \<open>test_size\<close> and \<open>random_state\<close>, the state of the process's global random
  generator, which is what it draws from when \<open>random_state\<close> is \<open>None\<close>.
\<close>

datatype average = Macro | Binary

record ('m, 'v) libs =
  train_test_split ::
    "frame \<Rightarrow> series \<Rightarrow> rat \<Rightarrow> nat option \<Rightarrow> nat \<Rightarrow> error + (frame \<times> frame \<times> series \<times> series)"
  fit :: "(string \<times> cell) list \<Rightarrow> frame \<Rightarrow> series \<Rightarrow> error + 'm"
  predict :: "'m \<Rightarrow> frame \<Rightarrow> error + series"
  accuracy_score :: "series \<Rightarrow> series \<Rightarrow> error + 'v"
  roc_auc_score :: "series \<Rightarrow> series \<Rightarrow> error + 'v"
  precision_score :: "average \<Rightarrow> series \<Rightarrow> series \<Rightarrow> error + 'v"
  recall_score :: "average \<Rightarrow> series \<Rightarrow> series \<Rightarrow> error + 'v"
  f1_score :: "average \<Rightarrow> series \<Rightarrow> series \<Rightarrow> error + 'v"
  precision_recall_fscore_support ::
    "average \<Rightarrow> cell \<Rightarrow> series \<Rightarrow> series \<Rightarrow> error + ('v \<times> 'v \<times> 'v)"

text \<open>
  \<open>confusion_matrix(y_true, y_pred)\<close> counts: its rows and columns are the sorted
  labels that occur in either argument, and cell \<open>[i][j]\<close> is the number of samples
  whose first-argument label is the \<open>i\<close>-th and whose second-argument label is the
  \<open>j\<close>-th.
\<close>

definition confusion_matrix :: "series \<Rightarrow> series \<Rightarrow> error + int list list" where
  "confusion_matrix y_true y_pred =
     (if length y_true \<noteq> length y_pred then Inl ValueError
      else let labels = categories (y_true @ y_pred)
           in Inr (map (\<lambda>a. map (\<lambda>b. int (length (filter (\<lambda>(t, p). t = a \<and> p = b)
                                                     (zip y_true y_pred)))) labels) labels))"

text \<open>\<open>cm[i][j]\<close> on the nested array: an index out of range raises.\<close>

definition item :: "int list list \<Rightarrow> nat \<Rightarrow> nat \<Rightarrow> error + int" where
  "item cm i j =
     (if i < length cm \<and> j < length (cm ! i) then Inr (cm ! i ! j) else Inl IndexError)"

text \<open>\<open>df_target.to_numpy().reshape(-1)\<close>: the cells of the table, row by row.\<close>

definition flatten :: "frame \<Rightarrow> series" where
  "flatten fr = concat (transpose (map snd (cols fr)))"

text \<open>
  What the function does to the outside besides reading the store: the calls it makes
  to the tracking server and to scikit-learn's metric functions, in order. The tracking
  server is taken to be reachable: its calls do not raise. A metric that
  is logged is a score or a count taken from the confusion matrix.
\<close>

datatype 'v metric = Score 'v | Count int

datatype ('m, 'v) event =
    Set_tracking_uri string
  | Set_experiment string
  | Start_run
  | End_run bool
  | Log_model 'm string string
  | Log_params "(string \<times> cell) list"
  | Log_metric string "'v metric"
  | Sklearn string series series

record ('m, 'v) env =
  rng :: nat
  run_uuid :: string
  events :: "('m, 'v) event list"

type_synonym ('a, 'm, 'v) step =
  "('m, 'v) event list \<Rightarrow> (error \<times> ('m, 'v) event list) + ('a \<times> ('m, 'v) event list)"

definition bind :: "('a, 'm, 'v) step \<Rightarrow> ('a \<Rightarrow> ('b, 'm, 'v) step) \<Rightarrow> ('b, 'm, 'v) step" where
  "bind m f = (\<lambda>tr. case m tr of Inl x \<Rightarrow> Inl x | Inr (a, tr') \<Rightarrow> f a tr')"

definition return :: "'a \<Rightarrow> ('a, 'm, 'v) step" where
  "return a = (\<lambda>tr. Inr (a, tr))"

definition lift :: "error + 'a \<Rightarrow> ('a, 'm, 'v) step" where
  "lift r = (\<lambda>tr. case r of Inl e \<Rightarrow> Inl (e, tr) | Inr a \<Rightarrow> Inr (a, tr))"

definition emit :: "('m, 'v) event \<Rightarrow> (unit, 'm, 'v) step" where
  "emit ev = (\<lambda>tr. Inr ((), tr @ [ev]))"

definition sklearn :: "string \<Rightarrow> (series \<Rightarrow> series \<Rightarrow> error + 'a) \<Rightarrow> series \<Rightarrow> series \<Rightarrow> ('a, 'm, 'v) step" where
  "sklearn name f a b = bind (emit (Sklearn name a b)) (\<lambda>_. lift (f a b))"

subsection \<open>get_trained_model\<close>

text \<open>
  Reading the two tables and splitting them (lines 119 to 122). What the module fixes of
  the split are the arguments of the call: the \<open>test_size\<close> 0.3 and the
  \<open>random_state\<close> 0. Which rows go to which partition is the splitter's.
\<close>

definition load_and_split ::
    "('m, 'v) libs \<Rightarrow> world \<Rightarrow> ('m, 'v) env \<Rightarrow> error + (frame \<times> frame \<times> series \<times> series)" where
  "load_and_split L w en =
     (case store w ''features'' of
        None \<Rightarrow> Inl DatabaseError
      | Some df_features \<Rightarrow>
         (case store w ''target'' of
            None \<Rightarrow> Inl DatabaseError
          | Some df_target \<Rightarrow>
              train_test_split L df_features (flatten df_target) (3 / 10) (Some 0) (rng en)))"

text \<open>The metrics computed from the predictions (lines 141 to 153), in the order logged.\<close>

definition compute_metrics ::
    "('m, 'v) libs \<Rightarrow> series \<Rightarrow> series \<Rightarrow> ((string \<times> 'v metric) list, 'm, 'v) step" where
  "compute_metrics L y_pred y_test =
     bind (sklearn ''accuracy_score'' (accuracy_score L) y_pred y_test) (\<lambda>acc.
     bind (sklearn ''roc_auc_score'' (roc_auc_score L) y_pred y_test) (\<lambda>auc_score.
     bind (sklearn ''confusion_matrix'' confusion_matrix y_pred y_test) (\<lambda>conf_mat.
     bind (sklearn ''precision_score'' (precision_score L Macro) y_pred y_test) (\<lambda>precision.
     bind (sklearn ''recall_score'' (recall_score L Macro) y_pred y_test) (\<lambda>recall.
     bind (sklearn ''f1_score'' (f1_score L Macro) y_pred y_test) (\<lambda>f1.
     bind (sklearn ''confusion_matrix'' confusion_matrix y_test y_pred) (\<lambda>cm.
     bind (lift (item cm 0 0)) (\<lambda>tn.
     bind (lift (item cm 1 0)) (\<lambda>fn.
     bind (lift (item cm 1 1)) (\<lambda>tp.
     bind (lift (item cm 0 1)) (\<lambda>fp.
     bind (sklearn ''precision_recall_fscore_support''
             (precision_recall_fscore_support L Binary (IntV 0)) y_test y_pred) (\<lambda>class_zero.
     bind (sklearn ''precision_recall_fscore_support''
             (precision_recall_fscore_support L Binary (IntV 1)) y_test y_pred) (\<lambda>class_one.
     return
       [(''roc_auc_score'', Score auc_score),
        (''test_accuracy'', Score acc),
        (''f1'', Score f1),
        (''Precision'', Score precision),
        (''Recall'', Score recall),
        (''Precision_0'', Score (fst class_zero)),
        (''Precision_1'', Score (fst class_one)),
        (''Recall_0'', Score (fst (snd class_zero))),
        (''Recall_1'', Score (fst (snd class_one))),
        (''f1_0'', Score (snd (snd class_zero))),
        (''f1_1'', Score (snd (snd class_one))),
        (''False Negative'', Count fn),
        (''True Negative'', Count tn)])))))))))))))"

fun log_metrics :: "(string \<times> 'v metric) list \<Rightarrow> (unit, 'm, 'v) step" where
  "log_metrics [] = return ()"
| "log_metrics ((name, v) # rest) = bind (emit (Log_metric name v)) (\<lambda>_. log_metrics rest)"

text \<open>The body of the \<open>with mlflow.start_run()\<close> block (lines 129 to 167).\<close>

definition run_body ::
    "('m, 'v) libs \<Rightarrow> config \<Rightarrow> frame \<Rightarrow> frame \<Rightarrow> series \<Rightarrow> series \<Rightarrow> (unit, 'm, 'v) step" where
  "run_body L cfg X_train X_test y_train y_test =
     bind (lift (fit L (model_config cfg) X_train y_train)) (\<lambda>model.
     bind (emit (Log_model model ''models'' ''LightGBM'')) (\<lambda>_.
     bind (emit (Log_params (model_config cfg))) (\<lambda>_.
     bind (lift (predict L model X_test)) (\<lambda>y_pred.
     bind (compute_metrics L y_pred y_test) (\<lambda>ms.
     log_metrics ms)))))"

definition get_trained_model ::
    "('m, 'v) libs \<Rightarrow> config \<Rightarrow> world \<Rightarrow> ('m, 'v) env \<Rightarrow> outcome \<times> world \<times> ('m, 'v) env" where
  "get_trained_model L cfg w en =
     (case load_and_split L w en of
        Inl e \<Rightarrow> (Raised e, w, en)
      | Inr (X_train, X_test, y_train, y_test) \<Rightarrow>
         (case run_body L cfg X_train X_test y_train y_test
                 (events en @ [Set_tracking_uri (TRACKING_URI cfg),
                               Set_experiment (EXPERIMENT cfg), Start_run]) of
            Inl (e, tr) \<Rightarrow> (Raised e, w, en\<lparr>events := tr @ [End_run False]\<rparr>)
          | Inr (_, tr) \<Rightarrow>
             (Returned_None,
              print (''Inside MLflow Run with id '' @ run_uuid en) w,
              en\<lparr>events := tr @ [End_run True]\<rparr>)))"

subsection \<open>What encode_features writes\<close>

text \<open>
  The functions of this section are not in the source: they say, column by column, what
  the two loops and the fill step leave in the two frames that are handed to
  \<open>to_sql\<close>, and the lemmas below prove that the model of the code computes just
  that. A schema name is matched when it is a column
  of the input or a generated column; its source column is the generated one where there
  is one, the input's otherwise; the output has the rows of the input as soon as one
  name is matched, and no row otherwise.
\<close>

definition matched :: "frame \<Rightarrow> frame \<Rightarrow> string \<Rightarrow> bool" where
  "matched df ph k = (k \<in> set (columns df) \<or> k \<in> set (columns ph))"

definition src :: "frame \<Rightarrow> frame \<Rightarrow> string \<Rightarrow> series" where
  "src df ph k =
     (case map_of (cols ph) k of
        Some s \<Rightarrow> s
      | None \<Rightarrow> (case map_of (cols df) k of Some s \<Rightarrow> s | None \<Rightarrow> []))"

definition enc_of :: "nat \<Rightarrow> (string \<Rightarrow> series) \<Rightarrow> string list \<Rightarrow> frame" where
  "enc_of R g S = \<lparr>nrows = R, cols = map (\<lambda>k. (k, reindex R (g k))) S\<rparr>"

definition filled :: "series \<Rightarrow> series" where
  "filled v = map (\<lambda>x. if x = Null then IntV 0 else x) v"

definition out_rows :: "frame \<Rightarrow> frame \<Rightarrow> string list \<Rightarrow> nat" where
  "out_rows df ph S = (if list_ex (matched df ph) S then nrows df else 0)"

definition out_frame :: "frame \<Rightarrow> frame \<Rightarrow> string list \<Rightarrow> string list \<Rightarrow> frame" where
  "out_frame df ph S names =
     \<lparr>nrows = out_rows df ph S,
      cols = map (\<lambda>k. (k, filled (reindex (out_rows df ph S) (src df ph k)))) names\<rparr>"

text \<open>
  Two conditions under which the function runs to its end. The generated columns are
  unambiguous for the schema when no name of the schema is carried by two of them (a
  name carried by two makes \<open>placeholder_df[name]\<close> a DataFrame). The schema is well
  formed when it names the label once and, besides it, a list of columns that SQLite
  accepts as a table.
\<close>

definition unambiguous :: "frame \<Rightarrow> string list \<Rightarrow> bool" where
  "unambiguous ph S = list_all (\<lambda>k. length (filter (\<lambda>c. fst c = k) (cols ph)) \<le> 1) S"

definition wf_schema :: "string list \<Rightarrow> bool" where
  "wf_schema S =
     (label \<in> set S \<and> distinct S \<and> sqlite_accepts (DataFrame (filter (\<lambda>k. k \<noteq> label) S)))"

subsection \<open>Concrete tables\<close>

text \<open>
  Modelled from the spec: the constants module is not among the sources, and the
  configuration on which the theorems are evaluated is that of the end-to-end scenario of
  the specification, section 8 (categorical features \<open>city\<close> and \<open>source\<close>, schema
  \<open>city_A, city_B, source_X, source_Y, app_complete_flag\<close>); the tracking address and the
  hyperparameters, on which no property depends, are arbitrary. \<open>scenario_input\<close> is the
  input table of that scenario, the other tables are variations of it.
\<close>

definition scenario_cfg :: config where
  "scenario_cfg =
     \<lparr>FEATURES_TO_ENCODE = [''city'', ''source''],
      ONE_HOT_ENCODED_FEATURES = [''city_A'', ''city_B'', ''source_X'', ''source_Y'', ''app_complete_flag''],
      TRACKING_URI = ''http://0.0.0.0:6006'',
      EXPERIMENT = ''Lead_Scoring_Training_Pipeline'',
      model_config = [(''n_estimators'', IntV 100)]\<rparr>"

definition scenario_input :: frame where
  "scenario_input =
     \<lparr>nrows = 2,
      cols = [(''city'', [StrV ''A'', StrV ''B'']),
              (''source'', [StrV ''X'', StrV ''Y'']),
              (''app_complete_flag'', [IntV 1, IntV 0])]\<rparr>"

definition no_source_input :: frame where
  "no_source_input =
     \<lparr>nrows = 2,
      cols = [(''city'', [StrV ''A'', StrV ''B'']),
              (''app_complete_flag'', [IntV 1, IntV 0])]\<rparr>"

definition overlap_input :: frame where
  "overlap_input =
     \<lparr>nrows = 2,
      cols = [(''city'', [StrV ''A'', StrV ''B'']),
              (''source'', [StrV ''X'', StrV ''Y'']),
              (''city_A'', [IntV 7, IntV 7]),
              (''app_complete_flag'', [IntV 1, IntV 0])]\<rparr>"

definition unmatched_input :: frame where
  "unmatched_input =
     \<lparr>nrows = 2,
      cols = [(''city'', [StrV ''C'', StrV ''D'']),
              (''source'', [StrV ''Z'', StrV ''Z''])]\<rparr>"

definition no_label_input :: frame where
  "no_label_input =
     \<lparr>nrows = 2,
      cols = [(''city'', [StrV ''A'', StrV ''B'']),
              (''source'', [StrV ''X'', Null])]\<rparr>"

definition world_of :: "frame \<Rightarrow> world" where
  "world_of df = \<lparr>store = [''model_input'' \<mapsto> df], stdout = []\<rparr>"

text \<open>
  An input table of the scenario in which the label is a text in one row and missing in
  the other, one source is missing, and no row has the city \<open>B\<close>.
\<close>

definition text_label_input :: frame where
  "text_label_input =
     \<lparr>nrows = 2,
      cols = [(''city'', [StrV ''A'', StrV ''A'']),
              (''source'', [StrV ''X'', Null]),
              (''app_complete_flag'', [StrV ''yes'', Null])]\<rparr>"

text \<open>
  A configuration whose one categorical feature is named \<open>app_complete\<close>, and an input
  table for it, without the label column, in which that feature has the category
  \<open>flag\<close>.
\<close>

definition flag_cfg :: config where
  "flag_cfg =
     \<lparr>FEATURES_TO_ENCODE = [''app_complete''],
      ONE_HOT_ENCODED_FEATURES = [''city_tier'', ''app_complete_flag''],
      TRACKING_URI = ''http://0.0.0.0:6006'',
      EXPERIMENT = ''Lead_Scoring_Training_Pipeline'',
      model_config = [(''n_estimators'', IntV 100)]\<rparr>"

definition flag_input :: frame where
  "flag_input =
     \<lparr>nrows = 2,
      cols = [(''app_complete'', [StrV ''flag'', StrV ''other'']),
              (''city_tier'', [IntV 1, IntV 2])]\<rparr>"

subsection \<open>Reading the trace of a run\<close>

text \<open>
  The calls a run makes to one of scikit-learn's functions, with their two positional
  arguments, and the metrics it logs, in order; the events every run starts with; the
  number of samples with a given pair of labels; the trace a step leaves, whether it
  returns or raises, and the steps that log no metric; and the fact about scikit-learn
  that a theorem below assumes of the collaborators: \<open>roc_auc_score\<close> raises
  \<open>ValueError\<close> when its first argument holds a single class.
\<close>

fun sklearn_calls :: "string \<Rightarrow> ('m, 'v) event list \<Rightarrow> (series \<times> series) list" where
  "sklearn_calls name [] = []"
| "sklearn_calls name (Sklearn f a b # tr) =
     (if f = name then (a, b) # sklearn_calls name tr else sklearn_calls name tr)"
| "sklearn_calls name (_ # tr) = sklearn_calls name tr"

fun logged_metrics :: "('m, 'v) event list \<Rightarrow> (string \<times> 'v metric) list" where
  "logged_metrics [] = []"
| "logged_metrics (Log_metric name v # tr) = (name, v) # logged_metrics tr"
| "logged_metrics (_ # tr) = logged_metrics tr"

definition run_prefix :: "config \<Rightarrow> 'm \<Rightarrow> ('m, 'v) event list" where
  "run_prefix cfg model =
     [Set_tracking_uri (TRACKING_URI cfg), Set_experiment (EXPERIMENT cfg), Start_run,
      Log_model model ''models'' ''LightGBM'', Log_params (model_config cfg)]"

definition pair_count :: "series \<Rightarrow> series \<Rightarrow> cell \<Rightarrow> cell \<Rightarrow> nat" where
  "pair_count yt yp a b = length (filter (\<lambda>(t, p). t = a \<and> p = b) (zip yt yp))"

definition roc_auc_needs_two_classes :: "('m, 'v) libs \<Rightarrow> bool" where
  "roc_auc_needs_two_classes L =
     (\<forall>y_true y_score. length (categories y_true) = 1 \<longrightarrow>
        roc_auc_score L y_true y_score = Inl ValueError)"

definition trace_of ::
    "(error \<times> ('m, 'v) event list) + ('a \<times> ('m, 'v) event list) \<Rightarrow> ('m, 'v) event list" where
  "trace_of r = (case r of Inl (e, tr) \<Rightarrow> tr | Inr (a, tr) \<Rightarrow> tr)"

definition quiet :: "('a, 'm, 'v) step \<Rightarrow> bool" where
  "quiet m = (\<forall>tr. logged_metrics (trace_of (m tr)) = logged_metrics tr)"

subsection \<open>An instance of the collaborators\<close>

text \<open>
  The theorems on \<open>get_trained_model\<close> hold for all collaborators. They are evaluated
  on this instance: the metrics by their textbook formulas over the rationals, with
  scikit-learn's refusals; a splitter that rotates the rows by its seed (by the global
  state when there is no seed) and takes the last rows, \<open>test_size\<close> of all rounded up, as the test
  partition; a classifier that predicts the first feature column.
\<close>

definition precision_of :: "series \<Rightarrow> series \<Rightarrow> cell \<Rightarrow> rat" where
  "precision_of yt yp c = of_nat (pair_count yt yp c c) / of_nat (length (filter (\<lambda>p. p = c) yp))"

definition recall_of :: "series \<Rightarrow> series \<Rightarrow> cell \<Rightarrow> rat" where
  "recall_of yt yp c = of_nat (pair_count yt yp c c) / of_nat (length (filter (\<lambda>t. t = c) yt))"

definition f1_of :: "series \<Rightarrow> series \<Rightarrow> cell \<Rightarrow> rat" where
  "f1_of yt yp c =
     2 * precision_of yt yp c * recall_of yt yp c / (precision_of yt yp c + recall_of yt yp c)"

definition macro :: "(series \<Rightarrow> series \<Rightarrow> cell \<Rightarrow> rat) \<Rightarrow> series \<Rightarrow> series \<Rightarrow> rat" where
  "macro f yt yp =
     sum_list (map (f yt yp) (categories (yt @ yp))) / of_nat (length (categories (yt @ yp)))"

definition class_metric ::
    "(series \<Rightarrow> series \<Rightarrow> cell \<Rightarrow> rat) \<Rightarrow> average \<Rightarrow> cell \<Rightarrow> series \<Rightarrow> series \<Rightarrow> error + rat" where
  "class_metric f avg pos yt yp =
     (if length yt \<noteq> length yp then Inl ValueError
      else case avg of
        Macro \<Rightarrow> Inr (macro f yt yp)
      | Binary \<Rightarrow>
          (if 2 < length (categories (yt @ yp)) then Inl ValueError
           else if pos \<notin> set (categories (yt @ yp)) \<and> 2 \<le> length (categories (yt @ yp))
           then Inl ValueError
           else Inr (f yt yp pos)))"

definition ref_accuracy :: "series \<Rightarrow> series \<Rightarrow> error + rat" where
  "ref_accuracy yt yp =
     (if length yt \<noteq> length yp then Inl ValueError
      else Inr (of_nat (length (filter (\<lambda>(t, p). t = p) (zip yt yp))) / of_nat (length yt)))"

definition ref_roc_auc :: "series \<Rightarrow> series \<Rightarrow> error + rat" where
  "ref_roc_auc yt ys =
     (if length yt \<noteq> length ys then Inl ValueError
      else case categories yt of
        [neg, pos] \<Rightarrow>
          (let P = map snd (filter (\<lambda>(t, s). t = pos) (zip yt ys));
               N = map snd (filter (\<lambda>(t, s). t = neg) (zip yt ys))
           in Inr (sum_list (concat (map (\<lambda>s. map (\<lambda>s'. if s = s' then 1 / 2
                                                      else if cell_le s' s then 1 else 0) N) P))
                   / of_nat (length P * length N)))
      | _ \<Rightarrow> Inl ValueError)"

definition ref_prfs :: "average \<Rightarrow> cell \<Rightarrow> series \<Rightarrow> series \<Rightarrow> error + (rat \<times> rat \<times> rat)" where
  "ref_prfs avg pos yt yp =
     (case class_metric precision_of avg pos yt yp of
        Inl e \<Rightarrow> Inl e
      | Inr p \<Rightarrow>
         (case class_metric recall_of avg pos yt yp of
            Inl e \<Rightarrow> Inl e
          | Inr r \<Rightarrow>
             (case class_metric f1_of avg pos yt yp of
                Inl e \<Rightarrow> Inl e
              | Inr f \<Rightarrow> Inr (p, r, f))))"

definition ref_split ::
    "frame \<Rightarrow> series \<Rightarrow> rat \<Rightarrow> nat option \<Rightarrow> nat \<Rightarrow> error + (frame \<times> frame \<times> series \<times> series)" where
  "ref_split X y test_size random_state global =
     (let n = nrows X;
          n_test = nat \<lceil>test_size * of_nat n\<rceil>;
          n_train = n - n_test;
          k = (case random_state of Some seed \<Rightarrow> seed | None \<Rightarrow> global)
      in if length y \<noteq> n \<or> n_train = 0 \<or> n_test = 0 then Inl ValueError
         else Inr (\<lparr>nrows = n_train, cols = map (\<lambda>(c, v). (c, take n_train (rotate k v))) (cols X)\<rparr>,
                   \<lparr>nrows = n_test, cols = map (\<lambda>(c, v). (c, drop n_train (rotate k v))) (cols X)\<rparr>,
                   take n_train (rotate k y), drop n_train (rotate k y)))"

definition ref_fit :: "(string \<times> cell) list \<Rightarrow> frame \<Rightarrow> series \<Rightarrow> error + string" where
  "ref_fit params X y = (case cols X of [] \<Rightarrow> Inl ValueError | (c, v) # _ \<Rightarrow> Inr c)"

definition ref_predict :: "string \<Rightarrow> frame \<Rightarrow> error + series" where
  "ref_predict c X = (case map_of (cols X) c of None \<Rightarrow> Inl KeyError | Some v \<Rightarrow> Inr v)"

definition ref_libs :: "(string, rat) libs" where
  "ref_libs =
     \<lparr>train_test_split = ref_split, fit = ref_fit, predict = ref_predict,
      accuracy_score = ref_accuracy, roc_auc_score = ref_roc_auc,
      precision_score = (\<lambda>avg. class_metric precision_of avg (IntV 1)),
      recall_score = (\<lambda>avg. class_metric recall_of avg (IntV 1)),
      f1_score = (\<lambda>avg. class_metric f1_of avg (IntV 1)),
      precision_recall_fscore_support = ref_prfs\<rparr>"

definition trained_world :: "series \<Rightarrow> series \<Rightarrow> world" where
  "trained_world x y =
     \<lparr>store = [''features'' \<mapsto> \<lparr>nrows = length x, cols = [(''x'', x)]\<rparr>,
               ''target'' \<mapsto> \<lparr>nrows = length y, cols = [(''app_complete_flag'', y)]\<rparr>],
      stdout = []\<rparr>"

definition xs10 :: series where
  "xs10 = map IntV [1, 1, 0, 0, 1, 0, 1, 0, 1, 0]"

definition ys10 :: series where
  "ys10 = map IntV [1, 1, 0, 0, 1, 0, 1, 1, 1, 0]"

definition zs10 :: series where
  "zs10 = map IntV [1, 1, 0, 0, 1, 0, 1, 0, 0, 0]"

definition env0 :: "(string, rat) env" where
  "env0 = \<lparr>rng = 5, run_uuid = ''run1'', events = []\<rparr>"

section \<open>Properties\<close>

subsection \<open>Auxiliary lemmas on the encoder\<close>

lemma length_reindex [simp]: "length (reindex n v) = n"
  by (simp add: reindex_def)

lemma reindex_same [simp]: "length v = n \<Longrightarrow> reindex n v = v"
  by (simp add: reindex_def)

lemma reindex_reindex [simp]: "reindex n (reindex n v) = reindex n v"
  by simp

lemma reindex_Nil: "reindex n [] = replicate n Null"
  by (simp add: reindex_def)

lemma columns_enc_of [simp]: "columns (enc_of R g S) = S"
  by (simp add: columns_def enc_of_def comp_def)

lemma DataFrame_enc_of: "DataFrame S = enc_of 0 (\<lambda>_. []) S"
  by (simp add: DataFrame_def enc_of_def reindex_def)

lemma nrows_enc_of [simp]: "nrows (enc_of R g S) = R"
  by (simp add: enc_of_def)

lemma cols_enc_of: "cols (enc_of R g S) = map (\<lambda>k. (k, reindex R (g k))) S"
  by (simp add: enc_of_def)

lemma setitem_enc_of:
  assumes "k \<in> set S" and "R = length v \<or> (R = 0 \<and> (\<forall>c. g c = []))"
  shows "setitem (enc_of R g S) k v = enc_of (length v) (g(k := v)) S"
proof -
  have n: "(if R = 0 then length v else R) = length v"
    using assms(2) by auto
  have r: "reindex (length v) (if c = k then v else reindex R (g c)) = reindex (length v) ((g(k := v)) c)" for c
    using assms(2) by (auto simp: reindex_def)
  have "setitem (enc_of R g S) k v =
          \<lparr>nrows = length v,
             cols = map (\<lambda>(c, old). (c, reindex (length v) (if c = k then v else old))) (cols (enc_of R g S))\<rparr>"
    using assms by (auto simp: setitem_def Let_def)
  also have "\<dots> = enc_of (length v) (g(k := v)) S"
    unfolding cols_enc_of enc_of_def using r by (simp add: comp_def)
  finally show ?thesis .
qed

lemma filter_fst_map_of_Nil:
  "filter (\<lambda>c. fst c = k) xs = [] \<Longrightarrow> map_of xs k = None"
  by (induction xs) (auto split: if_splits)

lemma filter_fst_map_of_single:
  "filter (\<lambda>c. fst c = k) xs = [x] \<Longrightarrow> map_of xs k = Some (snd x)"
  by (induction xs) (auto split: if_splits dest: filter_fst_map_of_Nil)

lemma map_of_None_columns: "map_of (cols fr) k = None \<longleftrightarrow> k \<notin> set (columns fr)"
  by (simp add: columns_def map_of_eq_None_iff)

lemma map_of_length:
  "list_all (\<lambda>c. length (snd c) = N) xs \<Longrightarrow> map_of xs k = Some s \<Longrightarrow> length s = N"
  by (auto simp: list_all_iff dest!: map_of_SomeD)

lemma body_enc_of:
  assumes k: "k \<in> set S"
    and J: "R = N \<or> (R = 0 \<and> (\<forall>c. g c = []))"
    and ldf: "list_all (\<lambda>c. length (snd c) = N) (cols df)"
    and lph: "list_all (\<lambda>c. length (snd c) = N) (cols ph)"
    and un: "length (filter (\<lambda>c. fst c = k) (cols ph)) \<le> 1"
  shows "copy_generated ph k (copy_input df k (enc_of R g S)) =
           Inr (if matched df ph k then enc_of N (g(k := src df ph k)) S else enc_of R g S)"
proof -
  define e1 where "e1 = copy_input df k (enc_of R g S)"
  have e1: "e1 = (case map_of (cols df) k of
                    Some s \<Rightarrow> enc_of N (g(k := s)) S | None \<Rightarrow> enc_of R g S)"
  proof (cases "map_of (cols df) k")
    case None
    then show ?thesis by (simp add: e1_def copy_input_def)
  next
    case (Some s)
    then have "length s = N" using ldf by (rule map_of_length [rotated])
    then show ?thesis
      using Some k J by (simp add: e1_def copy_input_def setitem_enc_of)
  qed
  consider "filter (\<lambda>c. fst c = k) (cols ph) = []"
    | x where "filter (\<lambda>c. fst c = k) (cols ph) = [x]"
    using un by (cases "filter (\<lambda>c. fst c = k) (cols ph)") (auto simp: length_Suc_conv)
  then show ?thesis
  proof cases
    case 1
    then have none: "map_of (cols ph) k = None" by (rule filter_fst_map_of_Nil)
    then have nph: "k \<notin> set (columns ph)" by (simp add: map_of_None_columns)
    have g: "copy_generated ph k e1 = Inr e1"
      using 1 by (simp add: copy_generated_def)
    show ?thesis
    proof (cases "map_of (cols df) k")
      case None
      then have "\<not> matched df ph k"
        using nph by (simp add: matched_def map_of_None_columns)
      then show ?thesis using g e1 None unfolding e1_def by simp
    next
      case (Some s)
      then have "matched df ph k"
        using map_of_None_columns [of df k] by (simp add: matched_def)
      moreover have "src df ph k = s" using none Some by (simp add: src_def)
      ultimately show ?thesis using g e1 Some unfolding e1_def by simp
    qed
  next
    case 2
    then have some: "map_of (cols ph) k = Some (snd x)" by (rule filter_fst_map_of_single)
    then have len: "length (snd x) = N" using lph by (rule map_of_length [rotated])
    have m: "matched df ph k"
      using some map_of_None_columns [of ph k] by (simp add: matched_def)
    have s: "src df ph k = snd x" using some by (simp add: src_def)
    have "copy_generated ph k e1 = Inr (setitem e1 k (snd x))"
      using 2 by (simp add: copy_generated_def)
    also have "setitem e1 k (snd x) = enc_of N (g(k := snd x)) S"
      using e1 k J len by (auto simp: setitem_enc_of split: option.splits)
    finally show ?thesis
      using m s unfolding e1_def by simp
  qed
qed

lemma assemble_loop_enc_of:
  assumes ldf: "list_all (\<lambda>c. length (snd c) = N) (cols df)"
    and lph: "list_all (\<lambda>c. length (snd c) = N) (cols ph)"
  shows "set rest \<subseteq> set S \<Longrightarrow> unambiguous ph rest \<Longrightarrow>
         R = N \<or> (R = 0 \<and> (\<forall>c. g c = [])) \<Longrightarrow>
         assemble_loop df ph rest (enc_of R g S) =
           Inr (enc_of (if \<exists>k\<in>set rest. matched df ph k then N else R)
                  (\<lambda>c. if c \<in> set rest \<and> matched df ph c then src df ph c else g c) S)"
proof (induction rest arbitrary: R g)
  case Nil
  then show ?case by simp
next
  case (Cons k rest)
  have k: "k \<in> set S" and sub: "set rest \<subseteq> set S" using Cons.prems(1) by auto
  have un: "length (filter (\<lambda>c. fst c = k) (cols ph)) \<le> 1" and unr: "unambiguous ph rest"
    using Cons.prems(2) by (auto simp: unambiguous_def)
  note body = body_enc_of [OF k Cons.prems(3) ldf lph un]
  show ?case
  proof (cases "matched df ph k")
    case True
    have "assemble_loop df ph (k # rest) (enc_of R g S) =
            assemble_loop df ph rest (enc_of N (g(k := src df ph k)) S)"
      using body True by simp
    also have "\<dots> = Inr (enc_of (if \<exists>k\<in>set rest. matched df ph k then N else N)
                  (\<lambda>c. if c \<in> set rest \<and> matched df ph c then src df ph c
                       else (g(k := src df ph k)) c) S)"
      by (rule Cons.IH [OF sub unr]) simp
    also have "(\<lambda>c. if c \<in> set rest \<and> matched df ph c then src df ph c
                       else (g(k := src df ph k)) c) =
               (\<lambda>c. if c \<in> set (k # rest) \<and> matched df ph c then src df ph c else g c)"
      using True by auto
    finally show ?thesis using True by simp
  next
    case False
    have "assemble_loop df ph (k # rest) (enc_of R g S) = assemble_loop df ph rest (enc_of R g S)"
      using body False by simp
    also note Cons.IH [OF sub unr Cons.prems(3)]
    also have "(\<lambda>c. if c \<in> set rest \<and> matched df ph c then src df ph c else g c) =
               (\<lambda>c. if c \<in> set (k # rest) \<and> matched df ph c then src df ph c else g c)"
      using False by auto
    finally show ?thesis using False by simp
  qed
qed

lemma columns_setitem: "k \<in> set (columns fr) \<Longrightarrow> columns (setitem fr k v) = columns fr"
  by (simp add: setitem_def columns_def Let_def comp_def case_prod_beta)

lemma map_fst_set_positional: "map fst (set_positional k n vs cs) = map fst cs"
  by (induction k n vs cs rule: set_positional.induct) (auto split: list.splits)

lemma columns_setitem_frame: "setitem_frame fr k m vs = Inr fr' \<Longrightarrow> columns fr' = columns fr"
  by (auto simp: setitem_frame_def columns_def Let_def map_fst_set_positional split: if_splits)

lemma columns_copy_input: "k \<in> set (columns fr) \<Longrightarrow> columns (copy_input df k fr) = columns fr"
  by (simp add: copy_input_def columns_setitem split: option.splits)

lemma columns_copy_generated:
  "copy_generated ph k fr = Inr fr' \<Longrightarrow> k \<in> set (columns fr) \<Longrightarrow> columns fr' = columns fr"
  by (auto simp: copy_generated_def columns_setitem split: list.splits dest: columns_setitem_frame)

lemma columns_assemble_loop:
  "assemble_loop df ph rest enc = Inr enc' \<Longrightarrow> set rest \<subseteq> set (columns enc) \<Longrightarrow>
   columns enc' = columns enc"
proof (induction rest arbitrary: enc)
  case Nil
  then show ?case by simp
next
  case (Cons k rest)
  from Cons.prems(1) obtain e2 where
    e2: "copy_generated ph k (copy_input df k enc) = Inr e2"
    and loop: "assemble_loop df ph rest e2 = Inr enc'"
    by (auto split: sum.splits)
  have k: "k \<in> set (columns enc)" using Cons.prems(2) by simp
  have c2: "columns e2 = columns enc"
    using columns_copy_generated [OF e2] k by (simp add: columns_copy_input)
  show ?case
    using Cons.IH [OF loop] Cons.prems(2) c2 by simp
qed

lemma count_distinct:
  "distinct xs \<Longrightarrow> k \<in> set xs \<Longrightarrow> length (filter (\<lambda>c. c = k) xs) = 1"
  by (induction xs) (auto simp: filter_empty_conv)

lemma copy_generated_unambiguous:
  assumes "copy_generated ph k fr = Inr fr'" and "distinct (columns fr)" and "k \<in> set (columns fr)"
  shows "length (filter (\<lambda>c. fst c = k) (cols ph)) \<le> 1"
proof (rule ccontr)
  assume "\<not> ?thesis"
  then obtain x y zs where f: "filter (\<lambda>c. fst c = k) (cols ph) = x # y # zs"
    by (cases "filter (\<lambda>c. fst c = k) (cols ph)" rule: list.exhaust)
       (auto simp: neq_Nil_conv)
  have "copy_generated ph k fr = setitem_frame fr k (nrows ph) (snd x # snd y # map snd zs)"
    using f by (simp add: copy_generated_def)
  also have "\<dots> = Inl ValueError"
    using count_distinct [OF assms(2,3)] by (simp add: setitem_frame_def)
  finally show False using assms(1) by simp
qed

lemma assemble_loop_unambiguous:
  "assemble_loop df ph rest enc = Inr enc' \<Longrightarrow> distinct (columns enc) \<Longrightarrow>
   set rest \<subseteq> set (columns enc) \<Longrightarrow> unambiguous ph rest"
proof (induction rest arbitrary: enc)
  case Nil
  then show ?case by (simp add: unambiguous_def)
next
  case (Cons k rest)
  from Cons.prems(1) obtain e2 where
    e2: "copy_generated ph k (copy_input df k enc) = Inr e2"
    and loop: "assemble_loop df ph rest e2 = Inr enc'"
    by (auto split: sum.splits)
  have k: "k \<in> set (columns enc)" using Cons.prems(3) by simp
  have c1: "columns (copy_input df k enc) = columns enc" using k by (rule columns_copy_input)
  have c2: "columns e2 = columns enc"
    using columns_copy_generated [OF e2] k c1 by simp
  have "length (filter (\<lambda>c. fst c = k) (cols ph)) \<le> 1"
    using copy_generated_unambiguous [OF e2] Cons.prems(2) k c1 by simp
  moreover have "unambiguous ph rest"
    using Cons.IH [OF loop] Cons.prems(2,3) c2 by simp
  ultimately show ?case by (simp add: unambiguous_def)
qed

lemma distinct_filter_parts:
  "distinct (filter P xs) \<Longrightarrow> distinct (filter (\<lambda>x. \<not> P x) xs) \<Longrightarrow> distinct xs"
  by (induction xs) (auto split: if_splits)

lemma encode_loop_None:
  "encode_loop df fs ph = None \<longleftrightarrow> \<not> set fs \<subseteq> set (columns df)"
  by (induction fs arbitrary: ph)
     (auto simp: map_of_None_columns [symmetric] split: option.splits)

lemma encode_loop_lengths:
  "encode_loop df fs ph = Some ph' \<Longrightarrow> nrows ph \<le> nrows df \<Longrightarrow>
   list_all (\<lambda>c. length (snd c) = nrows df) (cols ph) \<Longrightarrow>
   list_all (\<lambda>c. length (snd c) = nrows df) (cols ph')"
proof (induction fs arbitrary: ph)
  case Nil
  then show ?case by simp
next
  case (Cons f fs)
  from Cons.prems(1) obtain s where
    loop: "encode_loop df fs (concat_cols ph (nrows df) (add_prefix (f @ ''_'') (get_dummies s))) = Some ph'"
    by (auto split: option.splits)
  show ?case
    using Cons.prems(2)
    by (intro Cons.IH [OF loop]) (auto simp: concat_cols_def Let_def list_all_iff max_def)
qed

lemma src_unmatched: "\<not> matched df ph k \<Longrightarrow> src df ph k = []"
  by (simp add: matched_def src_def map_of_None_columns [symmetric] split: option.splits)

lemma assemble_enc_of:
  assumes ldf: "list_all (\<lambda>c. length (snd c) = nrows df) (cols df)"
    and lph: "list_all (\<lambda>c. length (snd c) = nrows df) (cols ph)"
    and un: "unambiguous ph (ONE_HOT_ENCODED_FEATURES cfg)"
  shows "assemble cfg df ph =
           Inr (enc_of (out_rows df ph (ONE_HOT_ENCODED_FEATURES cfg)) (src df ph)
                  (ONE_HOT_ENCODED_FEATURES cfg))"
proof -
  let ?S = "ONE_HOT_ENCODED_FEATURES cfg"
  have "assemble cfg df ph =
          Inr (enc_of (if \<exists>k\<in>set ?S. matched df ph k then nrows df else 0)
                 (\<lambda>c. if c \<in> set ?S \<and> matched df ph c then src df ph c else []) ?S)"
    unfolding assemble_def DataFrame_enc_of
    by (rule assemble_loop_enc_of [OF ldf lph _ un]) simp_all
  also have "enc_of (if \<exists>k\<in>set ?S. matched df ph k then nrows df else 0)
                 (\<lambda>c. if c \<in> set ?S \<and> matched df ph c then src df ph c else []) ?S =
             enc_of (out_rows df ph ?S) (src df ph) ?S"
    by (auto simp: enc_of_def out_rows_def list_ex_iff src_unmatched)
  finally show ?thesis .
qed

lemma fillna_enc_of:
  "fillna (IntV 0) (enc_of R g S) = \<lparr>nrows = R, cols = map (\<lambda>k. (k, filled (reindex R (g k)))) S\<rparr>"
  by (simp add: fillna_def enc_of_def filled_def comp_def)

lemma drop_column_out:
  "label \<in> set S \<Longrightarrow>
   drop_column label (fillna (IntV 0) (enc_of (out_rows df ph S) (src df ph) S)) =
     Inr (out_frame df ph S (filter (\<lambda>k. k \<noteq> label) S))"
  by (simp add: fillna_enc_of drop_column_def columns_def comp_def out_frame_def filter_map)

lemma getitem_out:
  "label \<in> set S \<Longrightarrow>
   getitem label (fillna (IntV 0) (enc_of (out_rows df ph S) (src df ph) S)) =
     Inr (out_frame df ph S (filter (\<lambda>k. k = label) S))"
  by (simp add: fillna_enc_of getitem_def columns_def comp_def out_frame_def filter_map)

lemma columns_out_frame [simp]: "columns (out_frame df ph S names) = names"
  by (simp add: out_frame_def columns_def comp_def)

lemma columns_fillna [simp]: "columns (fillna z fr) = columns fr"
  by (simp add: fillna_def columns_def comp_def case_prod_beta)

lemma columns_inserted [simp]: "columns (inserted fr) = columns fr"
  by (simp add: inserted_def columns_def comp_def case_prod_beta)

lemma nrows_inserted [simp]: "nrows (inserted fr) = nrows fr"
  by (simp add: inserted_def)

lemma cols_inserted: "cols (inserted fr) = map (\<lambda>(c, v). (c, insert_column v)) (cols fr)"
  by (simp add: inserted_def)

lemma length_insert_column [simp]: "length (insert_column v) = length v"
  by (simp add: insert_column_def)

lemma sqlite_accepts_valid: "sqlite_accepts fr \<Longrightarrow> valid_names fr"
  by (simp add: sqlite_accepts_def)

lemma to_sql_Inr:
  "to_sql name fr w = Inr w' \<longleftrightarrow>
     sqlite_accepts fr \<and> w' = w\<lparr>store := (store w)(name \<mapsto> inserted fr)\<rparr>"
  by (auto simp: to_sql_def sqlite_accepts_valid)

lemma encode_features_completes:
  assumes inp: "store w ''model_input'' = Some df"
    and ldf: "list_all (\<lambda>c. length (snd c) = nrows df) (cols df)"
    and loop: "encode_loop df (FEATURES_TO_ENCODE cfg) empty_frame = Some ph"
    and un: "unambiguous ph (ONE_HOT_ENCODED_FEATURES cfg)"
    and lab: "label \<in> set (ONE_HOT_ENCODED_FEATURES cfg)"
    and af: "sqlite_accepts (out_frame df ph (ONE_HOT_ENCODED_FEATURES cfg)
               (filter (\<lambda>k. k \<noteq> label) (ONE_HOT_ENCODED_FEATURES cfg)))"
    and at: "sqlite_accepts (out_frame df ph (ONE_HOT_ENCODED_FEATURES cfg)
               (filter (\<lambda>k. k = label) (ONE_HOT_ENCODED_FEATURES cfg)))"
  shows "encode_features cfg w =
           (Returned_None,
            w\<lparr>store := (store w)
               (''features'' \<mapsto> inserted (out_frame df ph (ONE_HOT_ENCODED_FEATURES cfg)
                                  (filter (\<lambda>k. k \<noteq> label) (ONE_HOT_ENCODED_FEATURES cfg))),
                ''target'' \<mapsto> inserted (out_frame df ph (ONE_HOT_ENCODED_FEATURES cfg)
                                  (filter (\<lambda>k. k = label) (ONE_HOT_ENCODED_FEATURES cfg))))\<rparr>)"
proof -
  have lph: "list_all (\<lambda>c. length (snd c) = nrows df) (cols ph)"
    using encode_loop_lengths [OF loop] by (simp add: empty_frame_def)
  note asm = assemble_enc_of [OF ldf lph un]
  show ?thesis
    using inp loop asm af at sqlite_accepts_valid [OF af] sqlite_accepts_valid [OF at]
    by (simp add: encode_features_def drop_column_out [OF lab]
                  getitem_out [OF lab] to_sql_def)
qed

lemma columns_DataFrame [simp]: "columns (DataFrame S) = S"
  by (simp add: DataFrame_def columns_def comp_def)

lemma sqlite_accepts_distinct: "sqlite_accepts fr \<Longrightarrow> distinct (columns fr)"
  by (auto simp: sqlite_accepts_def distinct_map)

lemma columns_drop_column:
  "drop_column k fr = Inr fr' \<Longrightarrow> k \<in> set (columns fr) \<and> columns fr' = filter (\<lambda>c. c \<noteq> k) (columns fr)"
  by (auto simp: drop_column_def columns_def filter_map comp_def split: if_splits)

lemma columns_getitem:
  "getitem k fr = Inr fr' \<Longrightarrow> columns fr' = filter (\<lambda>c. c = k) (columns fr)"
  by (auto simp: getitem_def columns_def filter_map comp_def split: if_splits)

lemma filter_label_single:
  "distinct xs \<Longrightarrow> k \<in> set xs \<Longrightarrow> filter (\<lambda>c. c = k) xs = [k]"
  by (induction xs) (auto simp: filter_empty_conv)

lemma encode_features_completed:
  assumes run: "encode_features cfg w = (Returned_None, w')"
    and inp: "store w ''model_input'' = Some df"
    and ldf: "list_all (\<lambda>c. length (snd c) = nrows df) (cols df)"
  shows "\<exists>ph. encode_loop df (FEATURES_TO_ENCODE cfg) empty_frame = Some ph
           \<and> unambiguous ph (ONE_HOT_ENCODED_FEATURES cfg)
           \<and> label \<in> set (ONE_HOT_ENCODED_FEATURES cfg)
           \<and> distinct (ONE_HOT_ENCODED_FEATURES cfg)
           \<and> sqlite_accepts (out_frame df ph (ONE_HOT_ENCODED_FEATURES cfg)
                 (filter (\<lambda>k. k \<noteq> label) (ONE_HOT_ENCODED_FEATURES cfg)))
           \<and> w' = w\<lparr>store := (store w)
               (''features'' \<mapsto> inserted (out_frame df ph (ONE_HOT_ENCODED_FEATURES cfg)
                                  (filter (\<lambda>k. k \<noteq> label) (ONE_HOT_ENCODED_FEATURES cfg))),
                ''target'' \<mapsto> inserted (out_frame df ph (ONE_HOT_ENCODED_FEATURES cfg) [label]))\<rparr>"
proof -
  let ?S = "ONE_HOT_ENCODED_FEATURES cfg"
  from run inp obtain ph enc feats targ where
    loop: "encode_loop df (FEATURES_TO_ENCODE cfg) empty_frame = Some ph"
    and asm: "assemble cfg df ph = Inr enc"
    and dr: "drop_column label (fillna (IntV 0) enc) = Inr feats"
    and gt: "getitem label (fillna (IntV 0) enc) = Inr targ"
    and af: "sqlite_accepts feats" and at: "sqlite_accepts targ"
    and w': "w' = w\<lparr>store := (store w)(''features'' \<mapsto> inserted feats, ''target'' \<mapsto> inserted targ)\<rparr>"
    by (auto simp: encode_features_def empty_frame_def to_sql_Inr
             split: option.splits sum.splits prod.splits)
  have ce: "columns enc = ?S"
    using columns_assemble_loop [of df ph ?S "DataFrame ?S" enc] asm by (simp add: assemble_def)
  have lab: "label \<in> set ?S"
    using columns_drop_column [OF dr] ce by simp
  have d1: "distinct (filter (\<lambda>c. c \<noteq> label) ?S)"
    using sqlite_accepts_distinct [OF af] columns_drop_column [OF dr] ce by simp
  have d2: "distinct (filter (\<lambda>c. \<not> c \<noteq> label) ?S)"
    using sqlite_accepts_distinct [OF at] columns_getitem [OF gt] ce by simp
  have dist: "distinct ?S" using d1 d2 by (rule distinct_filter_parts)
  have un: "unambiguous ph ?S"
    using assemble_loop_unambiguous [of df ph ?S "DataFrame ?S" enc] asm dist
    by (simp add: assemble_def)
  have lph: "list_all (\<lambda>c. length (snd c) = nrows df) (cols ph)"
    using encode_loop_lengths [OF loop] by (simp add: empty_frame_def)
  have enc: "enc = enc_of (out_rows df ph ?S) (src df ph) ?S"
    using assemble_enc_of [OF ldf lph un] asm by simp
  have feats: "feats = out_frame df ph ?S (filter (\<lambda>k. k \<noteq> label) ?S)"
    using dr drop_column_out [OF lab, of df ph] unfolding enc by simp
  have one: "filter (\<lambda>k. k = label) ?S = [label]"
    using dist lab by (rule filter_label_single)
  have targ: "targ = out_frame df ph ?S [label]"
    using gt getitem_out [OF lab, of df ph] one unfolding enc by simp
  show ?thesis
    using loop un lab dist af w' feats targ by auto
qed

subsection \<open>The early return of encode_features\<close>

text \<open>
  C1. When some feature of \<open>FEATURES_TO_ENCODE\<close> is not a column of the input table,
  \<open>encode_features\<close> raises nothing: it returns the input frame as it was read, prints
  the diagnostic once, and leaves the store as it was, so that neither \<open>features\<close> nor
  \<open>target\<close> is written. The result does not depend on the features that come after
  the first missing one, nor on the output schema.
\<close>

theorem encode_features_missing_feature:
  assumes "store w ''model_input'' = Some df"
    and "\<not> set (FEATURES_TO_ENCODE cfg) \<subseteq> set (columns df)"
  shows "encode_features cfg w = (Returned df, w\<lparr>stdout := stdout w @ [''Feature not found'']\<rparr>)
         \<and> store (snd (encode_features cfg w)) = store w"
proof -
  have "encode_loop df (FEATURES_TO_ENCODE cfg) empty_frame = None"
    using assms(2) by (simp add: encode_loop_None)
  then show ?thesis
    using assms(1) by (simp add: encode_features_def print_def)
qed

theorem encode_features_missing_feature_witness:
  "encode_features scenario_cfg (world_of no_source_input) =
     (Returned no_source_input,
      \<lparr>store = [''model_input'' \<mapsto> no_source_input], stdout = [''Feature not found'']\<rparr>)
   \<and> store (snd (encode_features scenario_cfg (world_of no_source_input))) =
       [''model_input'' \<mapsto> no_source_input]"
  using encode_features_missing_feature [of "world_of no_source_input" no_source_input scenario_cfg]
  by (simp add: world_of_def scenario_cfg_def no_source_input_def columns_def)

lemma digits_0: "digits 0 = ''0''"
  by code_simp

lemmas eval_defs = encode_features_def world_of_def scenario_cfg_def empty_frame_def
  concat_cols_def add_prefix_def get_dummies_def categories_def float64_def reindex_def
  assemble_def DataFrame_def copy_input_def copy_generated_def setitem_def setitem_frame_def
  columns_def fillna_def drop_column_def getitem_def label_def to_sql_def sqlite_accepts_def
  valid_names_def inserted_def insert_column_def sql_type_name_def str_int_def digits_0
  lower_char_def print_def Let_def numeral_2_eq_2

lemma sqlite_accepts_cong: "columns a = columns b \<Longrightarrow> sqlite_accepts a = sqlite_accepts b"
  by (simp add: sqlite_accepts_def valid_names_def)

lemma nrows_out_frame [simp]: "nrows (out_frame df ph S names) = out_rows df ph S"
  by (simp add: out_frame_def)

lemma cols_out_frame:
  "cols (out_frame df ph S names) =
     map (\<lambda>k. (k, filled (reindex (out_rows df ph S) (src df ph k)))) names"
  by (simp add: out_frame_def)

lemma wf_frame_lengths: "wf_frame df \<Longrightarrow> list_all (\<lambda>c. length (snd c) = nrows df) (cols df)"
  by (simp add: wf_frame_def)

lemma length_filled [simp]: "length (filled v) = length v"
  by (simp add: filled_def)

lemma Null_notin_filled [simp]: "Null \<notin> set (filled v)"
  by (auto simp: filled_def)

lemma map_of_tabulate:
  "map_of (map (\<lambda>k. (k, f k)) xs) k = (if k \<in> set xs then Some (f k) else None)"
  by (induction xs) auto

lemma run_scenario:
  "encode_features scenario_cfg (world_of scenario_input) =
   (Returned_None,
    \<lparr>store = [''model_input'' \<mapsto> scenario_input,
       ''features'' \<mapsto> \<lparr>nrows = 2, cols = [(''city_A'', [IntV 1, IntV 0]), (''city_B'', [IntV 0, IntV 1]),
         (''source_X'', [IntV 1, IntV 0]), (''source_Y'', [IntV 0, IntV 1])]\<rparr>,
       ''target'' \<mapsto> \<lparr>nrows = 2, cols = [(''app_complete_flag'', [IntV 1, IntV 0])]\<rparr>],
     stdout = []\<rparr>)"
  by (simp add: eval_defs scenario_input_def)

lemma inp_world_of: "store (world_of df) ''model_input'' = Some df"
  by (simp add: world_of_def)

lemma wf_scenario_input: "wf_frame scenario_input"
  by (simp add: wf_frame_def scenario_input_def columns_def)

subsection \<open>The tables encode_features writes\<close>

text \<open>
  C5. When \<open>encode_features\<close> runs to its end on an input table, every feature of
  \<open>FEATURES_TO_ENCODE\<close> was a column of that table, the \<open>features\<close> table it wrote has
  the columns of \<open>ONE_HOT_ENCODED_FEATURES\<close> without the label, in the configured order,
  and the \<open>target\<close> table has the label as its only column.
\<close>

theorem encode_features_schema:
  assumes "encode_features cfg w = (Returned_None, w')"
    and "store w ''model_input'' = Some df" and "wf_frame df"
  shows "set (FEATURES_TO_ENCODE cfg) \<subseteq> set (columns df)
         \<and> (\<exists>features target.
               store w' ''features'' = Some features \<and> store w' ''target'' = Some target
               \<and> columns features = filter (\<lambda>k. k \<noteq> label) (ONE_HOT_ENCODED_FEATURES cfg)
               \<and> columns target = [label])"
proof -
  from encode_features_completed [OF assms(1,2) wf_frame_lengths [OF assms(3)]]
  obtain ph where loop: "encode_loop df (FEATURES_TO_ENCODE cfg) empty_frame = Some ph"
    and w': "w' = w\<lparr>store := (store w)
               (''features'' \<mapsto> inserted (out_frame df ph (ONE_HOT_ENCODED_FEATURES cfg)
                                  (filter (\<lambda>k. k \<noteq> label) (ONE_HOT_ENCODED_FEATURES cfg))),
                ''target'' \<mapsto> inserted (out_frame df ph (ONE_HOT_ENCODED_FEATURES cfg) [label]))\<rparr>"
    by blast
  have "set (FEATURES_TO_ENCODE cfg) \<subseteq> set (columns df)"
    using loop encode_loop_None [of df "FEATURES_TO_ENCODE cfg" empty_frame] by auto
  then show ?thesis
    unfolding w' by simp
qed

theorem encode_features_schema_witness:
  "set (FEATURES_TO_ENCODE scenario_cfg) \<subseteq> set (columns scenario_input)
   \<and> (\<exists>features target.
         store (snd (encode_features scenario_cfg (world_of scenario_input))) ''features'' = Some features
         \<and> store (snd (encode_features scenario_cfg (world_of scenario_input))) ''target'' = Some target
         \<and> columns features = [''city_A'', ''city_B'', ''source_X'', ''source_Y'']
         \<and> columns target = [''app_complete_flag''])"
proof -
  have run: "encode_features scenario_cfg (world_of scenario_input) =
          (Returned_None, snd (encode_features scenario_cfg (world_of scenario_input)))"
    by (simp add: run_scenario)
  show ?thesis
    using encode_features_schema [OF run inp_world_of wf_scenario_input]
    by (simp add: scenario_cfg_def label_def)
qed

lemma encode_features_completed_assemble:
  assumes run: "encode_features cfg w = (Returned_None, w')"
    and inp: "store w ''model_input'' = Some df"
    and wf: "wf_frame df"
  shows "\<exists>ph. encode_loop df (FEATURES_TO_ENCODE cfg) empty_frame = Some ph
           \<and> assemble cfg df ph =
               Inr (enc_of (out_rows df ph (ONE_HOT_ENCODED_FEATURES cfg)) (src df ph)
                      (ONE_HOT_ENCODED_FEATURES cfg))
           \<and> w' = w\<lparr>store := (store w)
               (''features'' \<mapsto> inserted (out_frame df ph (ONE_HOT_ENCODED_FEATURES cfg)
                                  (filter (\<lambda>k. k \<noteq> label) (ONE_HOT_ENCODED_FEATURES cfg))),
                ''target'' \<mapsto> inserted (out_frame df ph (ONE_HOT_ENCODED_FEATURES cfg) [label]))\<rparr>"
proof -
  note ldf = wf_frame_lengths [OF wf]
  from encode_features_completed [OF run inp ldf]
  obtain ph where loop: "encode_loop df (FEATURES_TO_ENCODE cfg) empty_frame = Some ph"
    and un: "unambiguous ph (ONE_HOT_ENCODED_FEATURES cfg)"
    and w': "w' = w\<lparr>store := (store w)
               (''features'' \<mapsto> inserted (out_frame df ph (ONE_HOT_ENCODED_FEATURES cfg)
                                  (filter (\<lambda>k. k \<noteq> label) (ONE_HOT_ENCODED_FEATURES cfg))),
                ''target'' \<mapsto> inserted (out_frame df ph (ONE_HOT_ENCODED_FEATURES cfg) [label]))\<rparr>"
    by blast
  have lph: "list_all (\<lambda>c. length (snd c) = nrows df) (cols ph)"
    using encode_loop_lengths [OF loop] by (simp add: empty_frame_def)
  show ?thesis
    using loop w' assemble_enc_of [OF ldf lph un] by blast
qed

lemma list_ex_is_text_filled: "list_ex is_text (filled v) = list_ex is_text v"
  by (induction v) (auto simp: filled_def)

lemma insert_column_filled:
  "insert_column (filled v) =
     map (\<lambda>x. case x of
                 Null \<Rightarrow> if list_ex is_text v then StrV ''0'' else IntV 0
               | IntV i \<Rightarrow> if list_ex is_text v then StrV (str_int i) else IntV i
               | StrV s \<Rightarrow> StrV s) v"
proof (cases "list_ex is_text v")
  case True
  then have "sql_type_name (filled v) = TEXT"
    by (simp add: sql_type_name_def list_ex_is_text_filled)
  then show ?thesis
    using True by (auto simp: insert_column_def filled_def str_int_def digits_0 split: cell.splits)
next
  case False
  show ?thesis
  proof (cases "v = []")
    case True
    then show ?thesis by (simp add: insert_column_def filled_def)
  next
    case ne: False
    have nt: "\<not> is_text x" if "x \<in> set v" for x
      using False that by (auto simp: list_ex_iff)
    have "list_ex is_int (filled v)"
    proof (cases v)
      case Nil
      then show ?thesis using ne by simp
    next
      case (Cons a v')
      then show ?thesis
        using nt [of a] by (cases a) (simp_all add: filled_def)
    qed
    then have "sql_type_name (filled v) = INTEGER"
      using False by (simp add: sql_type_name_def list_ex_is_text_filled)
    then show ?thesis
      using False nt by (auto simp: insert_column_def filled_def split: cell.splits)
  qed
qed

lemma Null_notin_insert_column_filled: "Null \<notin> set (insert_column (filled v))"
  unfolding insert_column_filled by (auto split: cell.splits)

lemma cols_inserted_out_frame_filter:
  "cols (inserted (out_frame df ph S (filter P S))) =
     map (\<lambda>(c, v). (c, insert_column (filled v)))
         (filter (\<lambda>c. P (fst c)) (cols (enc_of (out_rows df ph S) (src df ph) S)))"
  by (simp add: cols_inserted cols_out_frame cols_enc_of filter_map comp_def)

lemma loop_text_label:
  "encode_loop text_label_input (FEATURES_TO_ENCODE scenario_cfg) empty_frame =
     Some \<lparr>nrows = 2,
           cols = [(''city_A'', [IntV 1, IntV 1]), (''source_X'', [IntV 1, IntV 0])]\<rparr>"
  by (simp add: eval_defs text_label_input_def)

lemma assemble_text_label:
  "assemble scenario_cfg text_label_input
     \<lparr>nrows = 2, cols = [(''city_A'', [IntV 1, IntV 1]), (''source_X'', [IntV 1, IntV 0])]\<rparr> =
   Inr \<lparr>nrows = 2,
        cols = [(''city_A'', [IntV 1, IntV 1]), (''city_B'', [Null, Null]),
                (''source_X'', [IntV 1, IntV 0]), (''source_Y'', [Null, Null]),
                (''app_complete_flag'', [StrV ''yes'', Null])]\<rparr>"
  by (simp add: eval_defs text_label_input_def)

lemma run_text_label:
  "encode_features scenario_cfg (world_of text_label_input) =
     (Returned_None,
      \<lparr>store = [''model_input'' \<mapsto> text_label_input,
         ''features'' \<mapsto> \<lparr>nrows = 2,
            cols = [(''city_A'', [IntV 1, IntV 1]), (''city_B'', [IntV 0, IntV 0]),
                    (''source_X'', [IntV 1, IntV 0]), (''source_Y'', [IntV 0, IntV 0])]\<rparr>,
         ''target'' \<mapsto> \<lparr>nrows = 2, cols = [(''app_complete_flag'', [StrV ''yes'', StrV ''0''])]\<rparr>],
       stdout = []\<rparr>)"
  by (simp add: eval_defs text_label_input_def)

subsection \<open>The fill step\<close>

text \<open>
  C6, as stated, fails in its second half. On the scenario's configuration, take an input
  table whose label column holds the text \<open>yes\<close> in the first row and nothing in the
  second. After assembly the label cell of the second row is missing; the fill step makes
  it the integer 0, and in the \<open>target\<close> table, whose column holds a text and is
  therefore a \<open>TEXT\<close> column, it is stored as the text \<open>0\<close>, which is not the
  number 0.
\<close>

theorem encode_features_text_fill_counterexample:
  "encode_features scenario_cfg (world_of text_label_input) =
     (Returned_None,
      \<lparr>store = [''model_input'' \<mapsto> text_label_input,
         ''features'' \<mapsto> \<lparr>nrows = 2,
            cols = [(''city_A'', [IntV 1, IntV 1]), (''city_B'', [IntV 0, IntV 0]),
                    (''source_X'', [IntV 1, IntV 0]), (''source_Y'', [IntV 0, IntV 0])]\<rparr>,
         ''target'' \<mapsto> \<lparr>nrows = 2, cols = [(''app_complete_flag'', [StrV ''yes'', StrV ''0''])]\<rparr>],
       stdout = []\<rparr>)
   \<and> map_of (cols text_label_input) ''app_complete_flag'' = Some [StrV ''yes'', Null]
   \<and> StrV ''0'' \<noteq> IntV 0"
  by (simp add: eval_defs text_label_input_def)

text \<open>
  C6, amended. When \<open>encode_features\<close> runs to its end, the two tables it wrote are the
  assembled frame, split at the label column, and no cell of either table is null. In a
  column of the assembled frame that holds no text, a missing cell is written as the
  integer 0 and every integer as it is. In a column that holds a text, a missing cell
  is written as the text \<open>0\<close>, an integer as the text of its digits, and a text as it
  is.
\<close>

theorem encode_features_no_null:
  assumes "encode_features cfg w = (Returned_None, w')"
    and "store w ''model_input'' = Some df" and "wf_frame df"
  shows "\<exists>ph enc features target.
           encode_loop df (FEATURES_TO_ENCODE cfg) empty_frame = Some ph
           \<and> assemble cfg df ph = Inr enc
           \<and> store w' ''features'' = Some features \<and> store w' ''target'' = Some target
           \<and> cols features =
               map (\<lambda>(c, v). (c, map (\<lambda>x. case x of
                         Null \<Rightarrow> if list_ex is_text v then StrV ''0'' else IntV 0
                       | IntV i \<Rightarrow> if list_ex is_text v then StrV (str_int i) else IntV i
                       | StrV s \<Rightarrow> StrV s) v))
                   (filter (\<lambda>c. fst c \<noteq> label) (cols enc))
           \<and> cols target =
               map (\<lambda>(c, v). (c, map (\<lambda>x. case x of
                         Null \<Rightarrow> if list_ex is_text v then StrV ''0'' else IntV 0
                       | IntV i \<Rightarrow> if list_ex is_text v then StrV (str_int i) else IntV i
                       | StrV s \<Rightarrow> StrV s) v))
                   (filter (\<lambda>c. fst c = label) (cols enc))
           \<and> (\<forall>c \<in> set (cols features) \<union> set (cols target). Null \<notin> set (snd c))"
proof -
  let ?S = "ONE_HOT_ENCODED_FEATURES cfg"
  from encode_features_completed_assemble [OF assms]
  obtain ph where loop: "encode_loop df (FEATURES_TO_ENCODE cfg) empty_frame = Some ph"
    and asm: "assemble cfg df ph = Inr (enc_of (out_rows df ph ?S) (src df ph) ?S)"
    and w': "w' = w\<lparr>store := (store w)
               (''features'' \<mapsto> inserted (out_frame df ph ?S (filter (\<lambda>k. k \<noteq> label) ?S)),
                ''target'' \<mapsto> inserted (out_frame df ph ?S [label]))\<rparr>"
    by blast
  from encode_features_completed [OF assms(1,2) wf_frame_lengths [OF assms(3)]]
  have "distinct ?S" and "label \<in> set ?S" by blast+
  then have one: "[label] = filter (\<lambda>k. k = label) ?S"
    by (simp add: filter_label_single)
  define F where "F = inserted (out_frame df ph ?S (filter (\<lambda>k. k \<noteq> label) ?S))"
  define T where "T = inserted (out_frame df ph ?S [label])"
  define enc where "enc = enc_of (out_rows df ph ?S) (src df ph) ?S"
  have f: "cols F = map (\<lambda>(c, v). (c, insert_column (filled v)))
                     (filter (\<lambda>c. fst c \<noteq> label) (cols enc))"
    unfolding F_def enc_def by (rule cols_inserted_out_frame_filter)
  have t: "cols T = map (\<lambda>(c, v). (c, insert_column (filled v)))
                     (filter (\<lambda>c. fst c = label) (cols enc))"
    unfolding T_def enc_def one by (rule cols_inserted_out_frame_filter)
  have n: "\<forall>c \<in> set (cols F) \<union> set (cols T). Null \<notin> set (snd c)"
    unfolding f t by (auto simp: Null_notin_insert_column_filled)
  have sf: "store w' ''features'' = Some F" and st: "store w' ''target'' = Some T"
    unfolding w' F_def T_def by simp_all
  from loop asm [folded enc_def] sf st f [unfolded insert_column_filled]
    t [unfolded insert_column_filled] n
  show ?thesis
    by blast
qed

theorem encode_features_no_null_witness:
  "\<exists>enc features target.
     assemble scenario_cfg text_label_input
       \<lparr>nrows = 2, cols = [(''city_A'', [IntV 1, IntV 1]), (''source_X'', [IntV 1, IntV 0])]\<rparr> = Inr enc
     \<and> cols enc = [(''city_A'', [IntV 1, IntV 1]), (''city_B'', [Null, Null]),
                   (''source_X'', [IntV 1, IntV 0]), (''source_Y'', [Null, Null]),
                   (''app_complete_flag'', [StrV ''yes'', Null])]
     \<and> store (snd (encode_features scenario_cfg (world_of text_label_input))) ''features'' = Some features
     \<and> store (snd (encode_features scenario_cfg (world_of text_label_input))) ''target'' = Some target
     \<and> cols features = [(''city_A'', [IntV 1, IntV 1]), (''city_B'', [IntV 0, IntV 0]),
                        (''source_X'', [IntV 1, IntV 0]), (''source_Y'', [IntV 0, IntV 0])]
     \<and> cols target = [(''app_complete_flag'', [StrV ''yes'', StrV ''0''])]
     \<and> (\<forall>c \<in> set (cols features) \<union> set (cols target). Null \<notin> set (snd c))"
proof -
  have run: "encode_features scenario_cfg (world_of text_label_input) =
          (Returned_None, snd (encode_features scenario_cfg (world_of text_label_input)))"
    by (simp add: run_text_label)
  have wf: "wf_frame text_label_input"
    by (simp add: wf_frame_def text_label_input_def columns_def)
  from encode_features_no_null [OF run inp_world_of wf]
  obtain ph enc features target where
    loop: "encode_loop text_label_input (FEATURES_TO_ENCODE scenario_cfg) empty_frame = Some ph"
    and asm: "assemble scenario_cfg text_label_input ph = Inr enc"
    and sf: "store (snd (encode_features scenario_cfg (world_of text_label_input))) ''features'' = Some features"
    and st: "store (snd (encode_features scenario_cfg (world_of text_label_input))) ''target'' = Some target"
    and f: "cols features =
               map (\<lambda>(c, v). (c, map (\<lambda>x. case x of
                         Null \<Rightarrow> if list_ex is_text v then StrV ''0'' else IntV 0
                       | IntV i \<Rightarrow> if list_ex is_text v then StrV (str_int i) else IntV i
                       | StrV s \<Rightarrow> StrV s) v))
                   (filter (\<lambda>c. fst c \<noteq> label) (cols enc))"
    and t: "cols target =
               map (\<lambda>(c, v). (c, map (\<lambda>x. case x of
                         Null \<Rightarrow> if list_ex is_text v then StrV ''0'' else IntV 0
                       | IntV i \<Rightarrow> if list_ex is_text v then StrV (str_int i) else IntV i
                       | StrV s \<Rightarrow> StrV s) v))
                   (filter (\<lambda>c. fst c = label) (cols enc))"
    and n: "\<forall>c \<in> set (cols features) \<union> set (cols target). Null \<notin> set (snd c)"
    by blast
  from loop have ph: "ph = \<lparr>nrows = 2,
           cols = [(''city_A'', [IntV 1, IntV 1]), (''source_X'', [IntV 1, IntV 0])]\<rparr>"
    unfolding loop_text_label by simp
  from asm have enc: "enc = \<lparr>nrows = 2,
        cols = [(''city_A'', [IntV 1, IntV 1]), (''city_B'', [Null, Null]),
                (''source_X'', [IntV 1, IntV 0]), (''source_Y'', [Null, Null]),
                (''app_complete_flag'', [StrV ''yes'', Null])]\<rparr>"
    unfolding ph assemble_text_label by simp
  have f': "cols features = [(''city_A'', [IntV 1, IntV 1]), (''city_B'', [IntV 0, IntV 0]),
                        (''source_X'', [IntV 1, IntV 0]), (''source_Y'', [IntV 0, IntV 0])]"
    unfolding f enc by (simp add: label_def)
  have t': "cols target = [(''app_complete_flag'', [StrV ''yes'', StrV ''0''])]"
    unfolding t enc by (simp add: label_def)
  from asm [unfolded ph] enc sf st f' t' n show ?thesis
    by auto
qed

lemma list_all_length_out_frame:
  "list_all (\<lambda>c. length (snd c) = out_rows df ph S) (cols (out_frame df ph S names))"
  by (simp add: cols_out_frame list_all_iff)

lemma list_all_length_inserted:
  "list_all (\<lambda>c. length (snd c) = n) (cols fr) \<Longrightarrow>
   list_all (\<lambda>c. length (snd c) = n) (cols (inserted fr))"
  by (auto simp: cols_inserted list_all_iff)

subsection \<open>Row counts\<close>

text \<open>
  C4, as stated, fails: on the scenario's configuration and an input table of two rows
  whose categories are not those of the schema and which has no label column, no name of
  the schema is an input column or a generated column, nothing is ever assigned to
  \<open>encoded_df\<close>, its index stays empty, and the two tables are written with no row.
\<close>

theorem encode_features_row_count_counterexample:
  "encode_features scenario_cfg (world_of unmatched_input) =
     (Returned_None,
      \<lparr>store = [''model_input'' \<mapsto> unmatched_input,
         ''features'' \<mapsto> \<lparr>nrows = 0, cols = [(''city_A'', []), (''city_B'', []),
                                              (''source_X'', []), (''source_Y'', [])]\<rparr>,
         ''target'' \<mapsto> \<lparr>nrows = 0, cols = [(''app_complete_flag'', [])]\<rparr>],
       stdout = []\<rparr>)
   \<and> nrows unmatched_input = 2"
  by (simp add: eval_defs unmatched_input_def)

text \<open>
  C4, amended. When \<open>encode_features\<close> runs to its end, the \<open>features\<close> and
  \<open>target\<close> tables have the same number of rows, every column of both has that length,
  and this number is the row count of the input table provided some name of the output
  schema is a column of the input or a generated one-hot column; it is 0 otherwise.
\<close>

theorem encode_features_row_count:
  assumes "encode_features cfg w = (Returned_None, w')"
    and "store w ''model_input'' = Some df" and "wf_frame df"
  shows "\<exists>ph features target.
           encode_loop df (FEATURES_TO_ENCODE cfg) empty_frame = Some ph
           \<and> store w' ''features'' = Some features \<and> store w' ''target'' = Some target
           \<and> nrows features = nrows target
           \<and> list_all (\<lambda>c. length (snd c) = nrows features) (cols features)
           \<and> list_all (\<lambda>c. length (snd c) = nrows target) (cols target)
           \<and> nrows features =
               (if list_ex (\<lambda>k. k \<in> set (columns df) \<or> k \<in> set (columns ph))
                     (ONE_HOT_ENCODED_FEATURES cfg)
                then nrows df else 0)"
proof -
  let ?S = "ONE_HOT_ENCODED_FEATURES cfg"
  from encode_features_completed_assemble [OF assms]
  obtain ph where loop: "encode_loop df (FEATURES_TO_ENCODE cfg) empty_frame = Some ph"
    and w': "w' = w\<lparr>store := (store w)
               (''features'' \<mapsto> inserted (out_frame df ph ?S (filter (\<lambda>k. k \<noteq> label) ?S)),
                ''target'' \<mapsto> inserted (out_frame df ph ?S [label]))\<rparr>"
    by blast
  define F where "F = inserted (out_frame df ph ?S (filter (\<lambda>k. k \<noteq> label) ?S))"
  define T where "T = inserted (out_frame df ph ?S [label])"
  have sf: "store w' ''features'' = Some F" and st: "store w' ''target'' = Some T"
    unfolding w' F_def T_def by simp_all
  have r: "nrows F = nrows T"
    unfolding F_def T_def by simp
  have lf: "list_all (\<lambda>c. length (snd c) = nrows F) (cols F)"
    and lt: "list_all (\<lambda>c. length (snd c) = nrows T) (cols T)"
    unfolding F_def T_def
    by (simp_all add: list_all_length_inserted list_all_length_out_frame)
  have n: "nrows F = (if list_ex (\<lambda>k. k \<in> set (columns df) \<or> k \<in> set (columns ph)) ?S
                      then nrows df else 0)"
    unfolding F_def by (simp add: out_rows_def matched_def [abs_def])
  from loop sf st r lf lt n show ?thesis
    by blast
qed

theorem encode_features_row_count_witness:
  "\<exists>features target.
     store (snd (encode_features scenario_cfg (world_of scenario_input))) ''features'' = Some features
     \<and> store (snd (encode_features scenario_cfg (world_of scenario_input))) ''target'' = Some target
     \<and> nrows features = nrows target
     \<and> nrows target = nrows scenario_input"
proof -
  have run: "encode_features scenario_cfg (world_of scenario_input) =
          (Returned_None, snd (encode_features scenario_cfg (world_of scenario_input)))"
    by (simp add: run_scenario)
  have m: "list_ex (\<lambda>k. k \<in> set (columns scenario_input) \<or> k \<in> set (columns ph))
             (ONE_HOT_ENCODED_FEATURES scenario_cfg)" for ph
    by (simp add: scenario_cfg_def scenario_input_def columns_def)
  show ?thesis
    using encode_features_row_count [OF run inp_world_of wf_scenario_input] m
    by auto
qed

lemma loop_no_label:
  "encode_loop no_label_input (FEATURES_TO_ENCODE scenario_cfg) empty_frame =
     Some \<lparr>nrows = 2,
           cols = [(''city_A'', [IntV 1, IntV 0]), (''city_B'', [IntV 0, IntV 1]),
                   (''source_X'', [IntV 1, IntV 0])]\<rparr>"
  by (simp add: eval_defs no_label_input_def)

lemma loop_overlap:
  "encode_loop overlap_input (FEATURES_TO_ENCODE scenario_cfg) empty_frame =
     Some \<lparr>nrows = 2,
           cols = [(''city_A'', [IntV 1, IntV 0]), (''city_B'', [IntV 0, IntV 1]),
                   (''source_X'', [IntV 1, IntV 0]), (''source_Y'', [IntV 0, IntV 1])]\<rparr>"
  by (simp add: eval_defs overlap_input_def)

lemma wf_schema_scenario: "wf_schema (ONE_HOT_ENCODED_FEATURES scenario_cfg)"
  by (simp add: wf_schema_def eval_defs)

subsection \<open>An input without the label column\<close>

text \<open>
  C10, as stated, fails: that the features are columns of the input and the label is not
  does not make the target a column of zeros. For a configuration whose feature
  \<open>app_complete\<close> has the category \<open>flag\<close>, the generated one-hot column is named
  \<open>app_complete_flag\<close>, the second test of the assembly loop copies it into the label
  column, and the \<open>target\<close> table holds a 1.
\<close>

theorem encode_features_label_generated_counterexample:
  "encode_features flag_cfg (world_of flag_input) =
     (Returned_None,
      \<lparr>store = [''model_input'' \<mapsto> flag_input,
         ''features'' \<mapsto> \<lparr>nrows = 2, cols = [(''city_tier'', [IntV 1, IntV 2])]\<rparr>,
         ''target'' \<mapsto> \<lparr>nrows = 2, cols = [(''app_complete_flag'', [IntV 1, IntV 0])]\<rparr>],
       stdout = []\<rparr>)
   \<and> set (FEATURES_TO_ENCODE flag_cfg) \<subseteq> set (columns flag_input)
   \<and> label \<notin> set (columns flag_input)"
  by (simp add: eval_defs flag_cfg_def flag_input_def)

text \<open>
  C10, amended. Let every configured feature be a column of the input table and the label
  not; let the schema name the label once and, besides it, between 1 and 2000 columns
  that SQLite accepts; let no name of the schema be carried by two generated one-hot
  columns, and let no generated one-hot column be named as the label. Then
  \<open>encode_features\<close> raises nothing and prints nothing: it returns \<open>None\<close> and writes
  both tables. The \<open>target\<close> table has the label as its only column, holding the
  integer 0 in every row, and as many rows as the \<open>features\<close> table: the rows of the
  input when some name of the schema is a column of the input or a generated column,
  none otherwise.
\<close>

theorem encode_features_label_absent:
  assumes inp: "store w ''model_input'' = Some df" and wf: "wf_frame df"
    and present: "set (FEATURES_TO_ENCODE cfg) \<subseteq> set (columns df)"
    and loop: "encode_loop df (FEATURES_TO_ENCODE cfg) empty_frame = Some ph"
    and absent: "label \<notin> set (columns df)"
    and not_generated: "label \<notin> set (columns ph)"
    and un: "unambiguous ph (ONE_HOT_ENCODED_FEATURES cfg)"
    and schema: "wf_schema (ONE_HOT_ENCODED_FEATURES cfg)"
  shows "\<exists>features n.
           n = (if list_ex (\<lambda>k. k \<in> set (columns df) \<or> k \<in> set (columns ph))
                     (ONE_HOT_ENCODED_FEATURES cfg)
                then nrows df else 0)
           \<and> encode_features cfg w =
             (Returned_None,
              w\<lparr>store := (store w)
                   (''features'' \<mapsto> features,
                    ''target'' \<mapsto> \<lparr>nrows = n, cols = [(label, replicate n (IntV 0))]\<rparr>)\<rparr>)
           \<and> columns features = filter (\<lambda>k. k \<noteq> label) (ONE_HOT_ENCODED_FEATURES cfg)
           \<and> nrows features = n
           \<and> list_all (\<lambda>c. length (snd c) = n) (cols features)"
proof -
  let ?S = "ONE_HOT_ENCODED_FEATURES cfg"
  have lab: "label \<in> set ?S" and dist: "distinct ?S"
    and acc: "sqlite_accepts (DataFrame (filter (\<lambda>k. k \<noteq> label) ?S))"
    using schema by (simp_all add: wf_schema_def)
  have one: "filter (\<lambda>k. k = label) ?S = [label]"
    using dist lab by (rule filter_label_single)
  have af: "sqlite_accepts (out_frame df ph ?S (filter (\<lambda>k. k \<noteq> label) ?S))"
    using acc sqlite_accepts_cong [of "out_frame df ph ?S (filter (\<lambda>k. k \<noteq> label) ?S)"
                                      "DataFrame (filter (\<lambda>k. k \<noteq> label) ?S)"]
    by simp
  have at: "sqlite_accepts (out_frame df ph ?S (filter (\<lambda>k. k = label) ?S))"
    unfolding one by (simp add: sqlite_accepts_def valid_names_def label_def)
  note run = encode_features_completes [OF inp wf_frame_lengths [OF wf] loop un lab af at]
  have "\<not> matched df ph label"
    using absent not_generated by (simp add: matched_def)
  then have "src df ph label = []"
    by (rule src_unmatched)
  then have "out_frame df ph ?S [label] =
          \<lparr>nrows = out_rows df ph ?S, cols = [(label, replicate (out_rows df ph ?S) (IntV 0))]\<rparr>"
    by (simp add: out_frame_def reindex_Nil filled_def)
  then have t: "inserted (out_frame df ph ?S [label]) =
          \<lparr>nrows = out_rows df ph ?S, cols = [(label, replicate (out_rows df ph ?S) (IntV 0))]\<rparr>"
    by (simp add: inserted_def insert_column_def sql_type_name_def list_ex_iff)
  define F where "F = inserted (out_frame df ph ?S (filter (\<lambda>k. k \<noteq> label) ?S))"
  have n: "out_rows df ph ?S =
             (if list_ex (\<lambda>k. k \<in> set (columns df) \<or> k \<in> set (columns ph)) ?S
              then nrows df else 0)"
    by (simp add: out_rows_def matched_def [abs_def])
  have "encode_features cfg w =
          (Returned_None,
           w\<lparr>store := (store w)
                (''features'' \<mapsto> F,
                 ''target'' \<mapsto> \<lparr>nrows = out_rows df ph ?S,
                                   cols = [(label, replicate (out_rows df ph ?S) (IntV 0))]\<rparr>)\<rparr>)"
    using run unfolding one t F_def .
  moreover have "columns F = filter (\<lambda>k. k \<noteq> label) ?S" and "nrows F = out_rows df ph ?S"
    unfolding F_def by simp_all
  moreover have "list_all (\<lambda>c. length (snd c) = out_rows df ph ?S) (cols F)"
    unfolding F_def by (simp add: list_all_length_inserted list_all_length_out_frame)
  ultimately show ?thesis
    using n by blast
qed

theorem encode_features_label_absent_witness:
  "\<exists>features.
      encode_features scenario_cfg (world_of no_label_input) =
        (Returned_None,
         (world_of no_label_input)\<lparr>store := (store (world_of no_label_input))
              (''features'' \<mapsto> features,
               ''target'' \<mapsto> \<lparr>nrows = 2, cols = [(''app_complete_flag'', [IntV 0, IntV 0])]\<rparr>)\<rparr>)
      \<and> columns features = [''city_A'', ''city_B'', ''source_X'', ''source_Y'']
      \<and> nrows features = 2
      \<and> list_all (\<lambda>c. length (snd c) = 2) (cols features)"
proof -
  have wf: "wf_frame no_label_input"
    by (simp add: wf_frame_def no_label_input_def columns_def)
  have present: "set (FEATURES_TO_ENCODE scenario_cfg) \<subseteq> set (columns no_label_input)"
    by (simp add: scenario_cfg_def no_label_input_def columns_def)
  have absent: "label \<notin> set (columns no_label_input)"
    by (simp add: label_def no_label_input_def columns_def)
  have ng: "label \<notin> set (columns \<lparr>nrows = 2,
           cols = [(''city_A'', [IntV 1, IntV 0]), (''city_B'', [IntV 0, IntV 1]),
                   (''source_X'', [IntV 1, IntV 0])]\<rparr>)"
    by (simp add: label_def columns_def)
  have un: "unambiguous \<lparr>nrows = 2,
           cols = [(''city_A'', [IntV 1, IntV 0]), (''city_B'', [IntV 0, IntV 1]),
                   (''source_X'', [IntV 1, IntV 0])]\<rparr> (ONE_HOT_ENCODED_FEATURES scenario_cfg)"
    by (simp add: unambiguous_def scenario_cfg_def)
  have n: "(if list_ex (\<lambda>k. k \<in> set (columns no_label_input) \<or> k \<in> set (columns \<lparr>nrows = 2,
           cols = [(''city_A'', [IntV 1, IntV 0]), (''city_B'', [IntV 0, IntV 1]),
                   (''source_X'', [IntV 1, IntV 0])]\<rparr>)) (ONE_HOT_ENCODED_FEATURES scenario_cfg)
            then nrows no_label_input else 0) = 2"
    by (simp add: scenario_cfg_def no_label_input_def columns_def)
  show ?thesis
    using encode_features_label_absent [OF inp_world_of wf present loop_no_label absent ng un
            wf_schema_scenario]
    unfolding n
    by (simp add: scenario_cfg_def label_def numeral_2_eq_2)
qed

subsection \<open>The assembly loop\<close>

text \<open>
  C2, as stated, fails in its last sentence: \<open>city_A\<close> is a column of the input (holding
  7 in both rows) and a generated one-hot column; what the output holds is the generated
  column, since the second test of the loop body is not an \<open>else\<close> branch of the first
  and its assignment overwrites the first.
\<close>

theorem encode_features_overlap_counterexample:
  "encode_features scenario_cfg (world_of overlap_input) =
     (Returned_None,
      \<lparr>store = [''model_input'' \<mapsto> overlap_input,
         ''features'' \<mapsto> \<lparr>nrows = 2,
            cols = [(''city_A'', [IntV 1, IntV 0]), (''city_B'', [IntV 0, IntV 1]),
                    (''source_X'', [IntV 1, IntV 0]), (''source_Y'', [IntV 0, IntV 1])]\<rparr>,
         ''target'' \<mapsto> \<lparr>nrows = 2, cols = [(''app_complete_flag'', [IntV 1, IntV 0])]\<rparr>],
       stdout = []\<rparr>)
   \<and> map_of (cols overlap_input) ''city_A'' = Some [IntV 7, IntV 7]
   \<and> ''city_A'' \<in> set (ONE_HOT_ENCODED_FEATURES scenario_cfg)"
  by (simp add: eval_defs overlap_input_def)

text \<open>
  C2, amended. After the assembly loop the output frame has the columns of the schema,
  and for each name of the schema: if it is the name of a generated one-hot column, the
  output column is the generated column, also when the input has a column of that name;
  otherwise, if it is a column of the input, the output column is the input's, as it is;
  a name that is neither is a column of nulls until the fill step.
\<close>

theorem assemble_columns:
  assumes wf: "wf_frame df"
    and loop: "encode_loop df (FEATURES_TO_ENCODE cfg) empty_frame = Some ph"
    and un: "unambiguous ph (ONE_HOT_ENCODED_FEATURES cfg)"
  shows "\<exists>enc. assemble cfg df ph = Inr enc
           \<and> columns enc = ONE_HOT_ENCODED_FEATURES cfg
           \<and> (\<forall>k \<in> set (ONE_HOT_ENCODED_FEATURES cfg).
                 map_of (cols enc) k =
                   (if k \<in> set (columns ph) then map_of (cols ph) k
                    else if k \<in> set (columns df) then map_of (cols df) k
                    else Some (replicate (nrows enc) Null)))"
proof -
  let ?S = "ONE_HOT_ENCODED_FEATURES cfg"
  let ?R = "out_rows df ph ?S"
  note ldf = wf_frame_lengths [OF wf]
  have lph: "list_all (\<lambda>c. length (snd c) = nrows df) (cols ph)"
    using encode_loop_lengths [OF loop] by (simp add: empty_frame_def)
  define enc where "enc = enc_of ?R (src df ph) ?S"
  have asm: "assemble cfg df ph = Inr enc"
    unfolding enc_def by (rule assemble_enc_of [OF ldf lph un])
  have c: "columns enc = ?S"
    unfolding enc_def by simp
  have "map_of (cols enc) k =
          (if k \<in> set (columns ph) then map_of (cols ph) k
           else if k \<in> set (columns df) then map_of (cols df) k
           else Some (replicate (nrows enc) Null))" if k: "k \<in> set ?S" for k
  proof -
    have m: "map_of (cols enc) k = Some (reindex ?R (src df ph k))"
      using k unfolding enc_def by (simp add: cols_enc_of map_of_tabulate)
    show ?thesis
    proof (cases "map_of (cols ph) k")
      case (Some s)
      then have kph: "k \<in> set (columns ph)"
        using map_of_None_columns [of ph k] by simp
      then have R: "?R = nrows df"
        using k by (auto simp: out_rows_def list_ex_iff matched_def)
      have "length s = nrows df" using lph Some by (rule map_of_length)
      then show ?thesis
        using m Some kph R by (simp add: src_def)
    next
      case None
      then have kph: "k \<notin> set (columns ph)"
        by (simp add: map_of_None_columns)
      show ?thesis
      proof (cases "map_of (cols df) k")
        case (Some s)
        then have kdf: "k \<in> set (columns df)"
          using map_of_None_columns [of df k] by simp
        then have R: "?R = nrows df"
          using k by (auto simp: out_rows_def list_ex_iff matched_def)
        have "length s = nrows df" using ldf Some by (rule map_of_length)
        then show ?thesis
          using m None Some kph kdf R by (simp add: src_def)
      next
        case None': None
        then have "k \<notin> set (columns df)"
          by (simp add: map_of_None_columns)
        then show ?thesis
          using m None None' kph by (simp add: src_def reindex_Nil enc_def)
      qed
    qed
  qed
  with asm c show ?thesis by blast
qed

theorem assemble_columns_witness:
  "\<exists>enc. assemble scenario_cfg overlap_input
            \<lparr>nrows = 2,
             cols = [(''city_A'', [IntV 1, IntV 0]), (''city_B'', [IntV 0, IntV 1]),
                     (''source_X'', [IntV 1, IntV 0]), (''source_Y'', [IntV 0, IntV 1])]\<rparr> = Inr enc
     \<and> columns enc = [''city_A'', ''city_B'', ''source_X'', ''source_Y'', ''app_complete_flag'']
     \<and> map_of (cols enc) ''city_A'' = Some [IntV 1, IntV 0]
     \<and> map_of (cols enc) ''app_complete_flag'' = Some [IntV 1, IntV 0]"
proof -
  have wf: "wf_frame overlap_input"
    by (simp add: wf_frame_def overlap_input_def columns_def)
  have un: "unambiguous \<lparr>nrows = 2,
             cols = [(''city_A'', [IntV 1, IntV 0]), (''city_B'', [IntV 0, IntV 1]),
                     (''source_X'', [IntV 1, IntV 0]), (''source_Y'', [IntV 0, IntV 1])]\<rparr>
           (ONE_HOT_ENCODED_FEATURES scenario_cfg)"
    by (simp add: unambiguous_def scenario_cfg_def)
  show ?thesis
    using assemble_columns [OF wf loop_overlap un]
    by (auto simp: scenario_cfg_def overlap_input_def columns_def)
qed

subsection \<open>Auxiliary lemmas on the trainer\<close>

lemma sklearn_calls_append [simp]:
  "sklearn_calls name (xs @ ys) = sklearn_calls name xs @ sklearn_calls name ys"
  by (induction name xs rule: sklearn_calls.induct) auto

lemma logged_metrics_append [simp]:
  "logged_metrics (xs @ ys) = logged_metrics xs @ logged_metrics ys"
  by (induction xs rule: logged_metrics.induct) auto

lemma log_metrics_run:
  "log_metrics ms tr = Inr ((), tr @ map (\<lambda>(n, v). Log_metric n v) ms)"
  by (induction ms arbitrary: tr) (auto simp: return_def bind_def emit_def)

lemma logged_metrics_map [simp]:
  "logged_metrics (map (\<lambda>(n, v). Log_metric n v) ms) = ms"
  by (induction ms) auto

lemma sklearn_calls_map [simp]:
  "sklearn_calls name (map (\<lambda>(n, v). Log_metric n v) ms) = []"
  by (induction ms) auto

lemma sklearn_run:
  "sklearn name f a b tr =
     (case f a b of Inl e \<Rightarrow> Inl (e, tr @ [Sklearn name a b])
                  | Inr v \<Rightarrow> Inr (v, tr @ [Sklearn name a b]))"
  by (simp add: sklearn_def bind_def emit_def lift_def)

lemma bind_Inr:
  "bind m f tr = Inr r \<longleftrightarrow> (\<exists>a tr'. m tr = Inr (a, tr') \<and> f a tr' = Inr r)"
  by (auto simp: bind_def split: sum.splits)

lemma sklearn_Inr:
  "sklearn name f a b tr = Inr r \<longleftrightarrow> (\<exists>v. f a b = Inr v \<and> r = (v, tr @ [Sklearn name a b]))"
  by (auto simp: sklearn_run split: sum.splits)

lemma lift_Inr: "lift x tr = Inr r \<longleftrightarrow> (\<exists>v. x = Inr v \<and> r = (v, tr))"
  by (auto simp: lift_def split: sum.splits)

lemma emit_Inr: "emit ev tr = Inr r \<longleftrightarrow> r = ((), tr @ [ev])"
  by (auto simp: emit_def)

lemma return_Inr: "return a tr = Inr r \<longleftrightarrow> r = (a, tr)"
  by (auto simp: return_def)

lemma compute_metrics_Inr:
  assumes "compute_metrics L y_pred y_test tr = Inr (ms, tr')"
  shows "\<exists>acc auc_score conf_mat precision recall f1 cm tn fn tp fp class_zero class_one.
      accuracy_score L y_pred y_test = Inr acc
    \<and> roc_auc_score L y_pred y_test = Inr auc_score
    \<and> confusion_matrix y_pred y_test = Inr conf_mat
    \<and> precision_score L Macro y_pred y_test = Inr precision
    \<and> recall_score L Macro y_pred y_test = Inr recall
    \<and> f1_score L Macro y_pred y_test = Inr f1
    \<and> confusion_matrix y_test y_pred = Inr cm
    \<and> item cm 0 0 = Inr tn \<and> item cm 1 0 = Inr fn \<and> item cm 1 1 = Inr tp \<and> item cm 0 1 = Inr fp
    \<and> precision_recall_fscore_support L Binary (IntV 0) y_test y_pred = Inr class_zero
    \<and> precision_recall_fscore_support L Binary (IntV 1) y_test y_pred = Inr class_one
    \<and> ms = [(''roc_auc_score'', Score auc_score),
        (''test_accuracy'', Score acc),
        (''f1'', Score f1),
        (''Precision'', Score precision),
        (''Recall'', Score recall),
        (''Precision_0'', Score (fst class_zero)),
        (''Precision_1'', Score (fst class_one)),
        (''Recall_0'', Score (fst (snd class_zero))),
        (''Recall_1'', Score (fst (snd class_one))),
        (''f1_0'', Score (snd (snd class_zero))),
        (''f1_1'', Score (snd (snd class_one))),
        (''False Negative'', Count fn),
        (''True Negative'', Count tn)]
    \<and> tr' = tr @ [Sklearn ''accuracy_score'' y_pred y_test,
                   Sklearn ''roc_auc_score'' y_pred y_test,
                   Sklearn ''confusion_matrix'' y_pred y_test,
                   Sklearn ''precision_score'' y_pred y_test,
                   Sklearn ''recall_score'' y_pred y_test,
                   Sklearn ''f1_score'' y_pred y_test,
                   Sklearn ''confusion_matrix'' y_test y_pred,
                   Sklearn ''precision_recall_fscore_support'' y_test y_pred,
                   Sklearn ''precision_recall_fscore_support'' y_test y_pred]"
  using assms unfolding compute_metrics_def bind_Inr sklearn_Inr lift_Inr return_Inr
  by clarsimp

lemma run_body_Inr:
  assumes "run_body L cfg X_train X_test y_train y_test tr = Inr (u, tr')"
  shows "\<exists>model y_pred ms tr1.
           fit L (model_config cfg) X_train y_train = Inr model
         \<and> predict L model X_test = Inr y_pred
         \<and> compute_metrics L y_pred y_test
              (tr @ [Log_model model ''models'' ''LightGBM'', Log_params (model_config cfg)]) = Inr (ms, tr1)
         \<and> tr' = tr1 @ map (\<lambda>(n, v). Log_metric n v) ms"
  using assms unfolding run_body_def bind_Inr lift_Inr emit_Inr log_metrics_run
  by clarsimp

lemma get_trained_model_completed:
  assumes "get_trained_model L cfg w en = (Returned_None, w', en')"
  shows "\<exists>X_train X_test y_train y_test model y_pred ms tr1.
           load_and_split L w en = Inr (X_train, X_test, y_train, y_test)
         \<and> fit L (model_config cfg) X_train y_train = Inr model
         \<and> predict L model X_test = Inr y_pred
         \<and> compute_metrics L y_pred y_test (events en @ run_prefix cfg model) = Inr (ms, tr1)
         \<and> events en' = tr1 @ map (\<lambda>(n, v). Log_metric n v) ms @ [End_run True]
         \<and> w' = print (''Inside MLflow Run with id '' @ run_uuid en) w"
proof -
  from assms obtain X_train X_test y_train y_test u tr' where
    sp: "load_and_split L w en = Inr (X_train, X_test, y_train, y_test)"
    and body: "run_body L cfg X_train X_test y_train y_test
                 (events en @ [Set_tracking_uri (TRACKING_URI cfg),
                               Set_experiment (EXPERIMENT cfg), Start_run]) = Inr (u, tr')"
    and en': "en' = en\<lparr>events := tr' @ [End_run True]\<rparr>"
    and w': "w' = print (''Inside MLflow Run with id '' @ run_uuid en) w"
    by (auto simp: get_trained_model_def split: sum.splits prod.splits)
  from run_body_Inr [OF body] sp en' w' show ?thesis
    by (auto simp: run_prefix_def)
qed

lemma compute_metrics_trace:
  assumes "compute_metrics L y_pred y_test tr = Inr (ms, tr')"
  shows "tr' = tr @ [Sklearn ''accuracy_score'' y_pred y_test,
                   Sklearn ''roc_auc_score'' y_pred y_test,
                   Sklearn ''confusion_matrix'' y_pred y_test,
                   Sklearn ''precision_score'' y_pred y_test,
                   Sklearn ''recall_score'' y_pred y_test,
                   Sklearn ''f1_score'' y_pred y_test,
                   Sklearn ''confusion_matrix'' y_test y_pred,
                   Sklearn ''precision_recall_fscore_support'' y_test y_pred,
                   Sklearn ''precision_recall_fscore_support'' y_test y_pred]"
  using compute_metrics_Inr [OF assms] by blast

lemmas ref_defs = ref_libs_def ref_split_def ref_fit_def ref_predict_def ref_accuracy_def
  ref_roc_auc_def ref_prfs_def class_metric_def macro_def f1_of_def recall_of_def precision_of_def
  pair_count_def trained_world_def env0_def load_and_split_def flatten_def categories_def

lemma split10: "load_and_split ref_libs (trained_world xs10 ys10) env0 =
  Inr (\<lparr>nrows = 7, cols = [(''x'', map IntV [1, 1, 0, 0, 1, 0, 1])]\<rparr>,
       \<lparr>nrows = 3, cols = [(''x'', map IntV [0, 1, 0])]\<rparr>,
       map IntV [1, 1, 0, 0, 1, 0, 1], map IntV [1, 1, 0])"
  by (simp add: ref_defs xs10_def ys10_def)

lemma confusion_matrix_binary:
  assumes "confusion_matrix yt yp = Inr cm" and "categories (yt @ yp) = [a, b]"
  shows "item cm 0 0 = Inr (int (pair_count yt yp a a))"
    and "item cm 1 0 = Inr (int (pair_count yt yp b a))"
  using assms by (auto simp: confusion_matrix_def item_def pair_count_def Let_def split: if_splits)

lemma logged_run_prefix [simp]: "logged_metrics (run_prefix cfg model) = []"
  by (simp add: run_prefix_def)

lemma calls_run_prefix [simp]: "sklearn_calls name (run_prefix cfg model) = []"
  by (simp add: run_prefix_def)

lemma confusion_matrix_item:
  assumes "confusion_matrix yt yp = Inr cm" and "item cm i j = Inr n"
  shows "i < length (categories (yt @ yp)) \<and> j < length (categories (yt @ yp))
         \<and> n = int (pair_count yt yp (categories (yt @ yp) ! i) (categories (yt @ yp) ! j))"
proof -
  let ?ls = "categories (yt @ yp)"
  have cm: "cm = map (\<lambda>a. map (\<lambda>b. int (pair_count yt yp a b)) ?ls) ?ls"
    using assms(1) by (simp add: confusion_matrix_def pair_count_def Let_def split: if_splits)
  have i: "i < length ?ls"
    using assms(2) unfolding cm by (simp add: item_def split: if_splits)
  then have j: "j < length ?ls"
    using assms(2) unfolding cm by (simp add: item_def split: if_splits)
  have "n = cm ! i ! j"
    using assms(2) by (simp add: item_def split: if_splits)
  then show ?thesis
    using i j unfolding cm by simp
qed

lemma quiet_bind:
  assumes "quiet m" and "\<And>a. quiet (f a)"
  shows "quiet (bind m f)"
  unfolding quiet_def
proof
  fix tr
  have m: "logged_metrics (trace_of (m tr)) = logged_metrics tr"
    using assms(1) unfolding quiet_def by blast
  show "logged_metrics (trace_of (bind m f tr)) = logged_metrics tr"
  proof (cases "m tr")
    case (Inl x)
    then have "bind m f tr = Inl x"
      by (simp add: bind_def)
    then show ?thesis
      using m Inl by (simp add: trace_of_def)
  next
    case (Inr x)
    obtain a tr' where x: "x = (a, tr')"
      by (cases x)
    have tr': "logged_metrics tr' = logged_metrics tr"
      using m Inr x by (simp add: trace_of_def)
    have "bind m f tr = f a tr'"
      using Inr x by (simp add: bind_def)
    moreover have "logged_metrics (trace_of (f a tr')) = logged_metrics tr'"
      using assms(2) [of a] unfolding quiet_def by blast
    ultimately show ?thesis
      using tr' by simp
  qed
qed

lemma quiet_lift: "quiet (lift x)"
  by (simp add: quiet_def lift_def trace_of_def split: sum.splits)

lemma quiet_return: "quiet (return a)"
  by (simp add: quiet_def return_def trace_of_def)

lemma quiet_sklearn: "quiet (sklearn name f a b)"
  by (simp add: quiet_def sklearn_run trace_of_def split: sum.splits)

lemma quiet_compute_metrics: "quiet (compute_metrics L y_pred y_test)"
  unfolding compute_metrics_def
  by (intro quiet_bind quiet_sklearn quiet_lift quiet_return)

lemma run_body_Inl:
  assumes "run_body L cfg X_train X_test y_train y_test tr = Inl (e, tr')"
  shows "logged_metrics tr' = logged_metrics tr"
proof (cases "fit L (model_config cfg) X_train y_train")
  case (Inl a)
  then show ?thesis
    using assms by (simp add: run_body_def bind_def lift_def)
next
  case ft: (Inr model)
  show ?thesis
  proof (cases "predict L model X_test")
    case (Inl a)
    then show ?thesis
      using assms ft by (auto simp: run_body_def bind_def lift_def emit_def)
  next
    case pr: (Inr y_pred)
    let ?tr = "tr @ [Log_model model ''models'' ''LightGBM'', Log_params (model_config cfg)]"
    have q: "logged_metrics (trace_of (compute_metrics L y_pred y_test ?tr)) = logged_metrics ?tr"
      using quiet_compute_metrics [of L y_pred y_test] by (simp add: quiet_def)
    show ?thesis
    proof (cases "compute_metrics L y_pred y_test ?tr")
      case (Inl x)
      then show ?thesis
        using assms ft pr q by (auto simp: run_body_def bind_def lift_def emit_def trace_of_def)
    next
      case (Inr x)
      then show ?thesis
        using assms ft pr
        by (cases x) (simp add: run_body_def bind_def lift_def emit_def log_metrics_run)
    qed
  qed
qed

lemma get_trained_model_raised:
  assumes "get_trained_model L cfg w en = (Raised e, w', en')"
  shows "logged_metrics (events en') = logged_metrics (events en)"
proof (cases "load_and_split L w en")
  case (Inl a)
  then show ?thesis
    using assms by (simp add: get_trained_model_def)
next
  case (Inr s)
  obtain X_train X_test y_train y_test where s: "s = (X_train, X_test, y_train, y_test)"
    by (cases s) auto
  let ?tr = "events en @ [Set_tracking_uri (TRACKING_URI cfg), Set_experiment (EXPERIMENT cfg), Start_run]"
  show ?thesis
  proof (cases "run_body L cfg X_train X_test y_train y_test ?tr")
    case (Inl x)
    obtain e1 tr1 where x: "x = (e1, tr1)" by (cases x) auto
    have "logged_metrics tr1 = logged_metrics ?tr"
      using Inl unfolding x by (rule run_body_Inl)
    then show ?thesis
      using assms Inr s Inl x by (auto simp: get_trained_model_def)
  next
    case inr: (Inr x)
    then show ?thesis
      using assms Inr s by (auto simp: get_trained_model_def split: prod.splits)
  qed
qed

subsection \<open>The two confusion matrices\<close>

text \<open>
  C3. A run of \<open>get_trained_model\<close> that completes calls \<open>confusion_matrix\<close> exactly
  twice: first with the predicted labels in the first position and the actual test labels
  in the second, then with the actual labels first and the predicted second. The logged
  \<open>True Negative\<close> and \<open>False Negative\<close> are the cells \<open>[0][0]\<close> and \<open>[1][0]\<close> of the
  second matrix; with the two labels 0 and 1 these are the numbers of test samples whose
  actual and predicted labels are 0 and 0, respectively 1 and 0.
\<close>

theorem get_trained_model_confusion_matrices:
  assumes "get_trained_model L cfg w en = (Returned_None, w', en')"
  shows "\<exists>X_train X_test y_train y_test model y_pred new cm tn fn.
           load_and_split L w en = Inr (X_train, X_test, y_train, y_test)
         \<and> fit L (model_config cfg) X_train y_train = Inr model
         \<and> predict L model X_test = Inr y_pred
         \<and> events en' = events en @ new
         \<and> sklearn_calls ''confusion_matrix'' new = [(y_pred, y_test), (y_test, y_pred)]
         \<and> confusion_matrix y_test y_pred = Inr cm
         \<and> item cm 0 0 = Inr tn \<and> item cm 1 0 = Inr fn
         \<and> map_of (logged_metrics new) ''True Negative'' = Some (Count tn)
         \<and> map_of (logged_metrics new) ''False Negative'' = Some (Count fn)
         \<and> (categories (y_test @ y_pred) = [IntV 0, IntV 1] \<longrightarrow>
               tn = int (pair_count y_test y_pred (IntV 0) (IntV 0))
             \<and> fn = int (pair_count y_test y_pred (IntV 1) (IntV 0)))"
proof -
  from get_trained_model_completed [OF assms]
  obtain X_train X_test y_train y_test model y_pred ms tr1 where
    sp: "load_and_split L w en = Inr (X_train, X_test, y_train, y_test)"
    and ft: "fit L (model_config cfg) X_train y_train = Inr model"
    and pr: "predict L model X_test = Inr y_pred"
    and cm: "compute_metrics L y_pred y_test (events en @ run_prefix cfg model) = Inr (ms, tr1)"
    and ev: "events en' = tr1 @ map (\<lambda>(n, v). Log_metric n v) ms @ [End_run True]"
    by blast
  from compute_metrics_Inr [OF cm]
  obtain auc_score acc f1 precision recall class_zero class_one cm' tn fn where
    c: "confusion_matrix y_test y_pred = Inr cm'"
    and tn: "item cm' 0 0 = Inr tn" and fn: "item cm' 1 0 = Inr fn"
    and ms: "ms = [(''roc_auc_score'', Score auc_score),
        (''test_accuracy'', Score acc),
        (''f1'', Score f1),
        (''Precision'', Score precision),
        (''Recall'', Score recall),
        (''Precision_0'', Score (fst class_zero)),
        (''Precision_1'', Score (fst class_one)),
        (''Recall_0'', Score (fst (snd class_zero))),
        (''Recall_1'', Score (fst (snd class_one))),
        (''f1_0'', Score (snd (snd class_zero))),
        (''f1_1'', Score (snd (snd class_one))),
        (''False Negative'', Count fn),
        (''True Negative'', Count tn)]"
    by blast
  note tr1 = compute_metrics_trace [OF cm]
  define new where "new = run_prefix cfg model @
                   [Sklearn ''accuracy_score'' y_pred y_test,
                    Sklearn ''roc_auc_score'' y_pred y_test,
                    Sklearn ''confusion_matrix'' y_pred y_test,
                    Sklearn ''precision_score'' y_pred y_test,
                    Sklearn ''recall_score'' y_pred y_test,
                    Sklearn ''f1_score'' y_pred y_test,
                    Sklearn ''confusion_matrix'' y_test y_pred,
                    Sklearn ''precision_recall_fscore_support'' y_test y_pred,
                    Sklearn ''precision_recall_fscore_support'' y_test y_pred]
                   @ map (\<lambda>(n, v). Log_metric n v) ms @ [End_run True]"
  have new: "events en' = events en @ new"
    unfolding new_def ev tr1 by simp
  have calls: "sklearn_calls ''confusion_matrix'' new = [(y_pred, y_test), (y_test, y_pred)]"
    unfolding new_def by simp
  have lg: "logged_metrics new = ms"
    unfolding new_def by simp
  have m1: "map_of (logged_metrics new) ''True Negative'' = Some (Count tn)"
    and m2: "map_of (logged_metrics new) ''False Negative'' = Some (Count fn)"
    unfolding lg ms by simp_all
  have bin: "categories (y_test @ y_pred) = [IntV 0, IntV 1] \<longrightarrow>
               tn = int (pair_count y_test y_pred (IntV 0) (IntV 0))
             \<and> fn = int (pair_count y_test y_pred (IntV 1) (IntV 0))"
    using confusion_matrix_binary [OF c] tn fn by auto
  from sp ft pr new calls c tn fn m1 m2 bin show ?thesis
    by blast
qed

lemma run10:
  "fst (get_trained_model ref_libs scenario_cfg (trained_world xs10 ys10) env0) = Returned_None"
  by (simp add: get_trained_model_def run_body_def compute_metrics_def bind_def lift_def emit_def
        return_def sklearn_def confusion_matrix_def item_def Let_def ref_defs xs10_def ys10_def
        split: sum.splits)

lemma fit10: "fit ref_libs ps \<lparr>nrows = 7, cols = [(''x'', v)]\<rparr> y = Inr ''x''"
  by (simp add: ref_defs)

lemma predict10: "predict ref_libs ''x'' \<lparr>nrows = 3, cols = [(''x'', v)]\<rparr> = Inr v"
  by (simp add: ref_defs)

lemma cm10: "confusion_matrix (map IntV [1, 1, 0]) (map IntV [0, 1, 0]) = Inr [[1, 0], [1, 1]]"
  by (simp add: confusion_matrix_def categories_def)

theorem get_trained_model_confusion_matrices_witness:
  "\<exists>new. events (snd (snd (get_trained_model ref_libs scenario_cfg (trained_world xs10 ys10) env0)))
            = events env0 @ new
     \<and> sklearn_calls ''confusion_matrix'' new =
          [(map IntV [0, 1, 0], map IntV [1, 1, 0]), (map IntV [1, 1, 0], map IntV [0, 1, 0])]
     \<and> map_of (logged_metrics new) ''True Negative'' = Some (Count 1)
     \<and> map_of (logged_metrics new) ''False Negative'' = Some (Count 1)"
proof -
  have run: "get_trained_model ref_libs scenario_cfg (trained_world xs10 ys10) env0 =
          (Returned_None, fst (snd (get_trained_model ref_libs scenario_cfg (trained_world xs10 ys10) env0)),
           snd (snd (get_trained_model ref_libs scenario_cfg (trained_world xs10 ys10) env0)))"
    using run10 by (metis prod.collapse)
  from get_trained_model_confusion_matrices [OF run]
  obtain X_train X_test y_train y_test model y_pred new cm tn fn where
    sp: "load_and_split ref_libs (trained_world xs10 ys10) env0 = Inr (X_train, X_test, y_train, y_test)"
    and ft: "fit ref_libs (model_config scenario_cfg) X_train y_train = Inr model"
    and pr: "predict ref_libs model X_test = Inr y_pred"
    and ev: "events (snd (snd (get_trained_model ref_libs scenario_cfg (trained_world xs10 ys10) env0)))
               = events env0 @ new"
    and calls: "sklearn_calls ''confusion_matrix'' new = [(y_pred, y_test), (y_test, y_pred)]"
    and cm: "confusion_matrix y_test y_pred = Inr cm"
    and tn: "item cm 0 0 = Inr tn" and fn: "item cm 1 0 = Inr fn"
    and m1: "map_of (logged_metrics new) ''True Negative'' = Some (Count tn)"
    and m2: "map_of (logged_metrics new) ''False Negative'' = Some (Count fn)"
    by blast
  from sp have yt: "y_test = map IntV [1, 1, 0]"
    and xt: "X_test = \<lparr>nrows = 3, cols = [(''x'', map IntV [0, 1, 0])]\<rparr>"
    and xr: "X_train = \<lparr>nrows = 7, cols = [(''x'', map IntV [1, 1, 0, 0, 1, 0, 1])]\<rparr>"
    unfolding split10 by auto
  from ft have md: "model = ''x''" unfolding xr fit10 by simp
  from pr have yp: "y_pred = map IntV [0, 1, 0]" unfolding md xt predict10 by simp
  from cm have c: "cm = [[1, 0], [1, 1]]" unfolding yt yp cm10 by simp
  from tn fn have "tn = 1" and "fn = 1" unfolding c by (simp_all add: item_def)
  with ev calls m1 m2 show ?thesis unfolding yt yp by blast
qed

lemma compute_metrics_roc_Inl:
  assumes "roc_auc_score L y_pred y_test = Inl e"
  shows "\<exists>e' tr'. compute_metrics L y_pred y_test tr = Inl (e', tr')
           \<and> logged_metrics tr' = logged_metrics tr
           \<and> (\<forall>acc. accuracy_score L y_pred y_test = Inr acc \<longrightarrow> e' = e)"
proof (cases "accuracy_score L y_pred y_test")
  case (Inl a)
  then show ?thesis
    by (simp add: compute_metrics_def bind_def sklearn_run)
next
  case (Inr acc)
  then show ?thesis
    using assms by (simp add: compute_metrics_def bind_def sklearn_run)
qed

lemma get_trained_model_roc_fails:
  assumes sp: "load_and_split L w en = Inr (X_train, X_test, y_train, y_test)"
    and ft: "fit L (model_config cfg) X_train y_train = Inr model"
    and pr: "predict L model X_test = Inr y_pred"
    and roc: "roc_auc_score L y_pred y_test = Inl e"
  shows "\<exists>e' tr'. get_trained_model L cfg w en = (Raised e', w, en\<lparr>events := tr' @ [End_run False]\<rparr>)
           \<and> logged_metrics tr' = logged_metrics (events en)
           \<and> (\<forall>acc. accuracy_score L y_pred y_test = Inr acc \<longrightarrow> e' = e)"
proof -
  from compute_metrics_roc_Inl [OF roc, of "events en @ run_prefix cfg model"]
  obtain e' tr' where
    cm: "compute_metrics L y_pred y_test (events en @ run_prefix cfg model) = Inl (e', tr')"
    and lg: "logged_metrics tr' = logged_metrics (events en @ run_prefix cfg model)"
    and acc: "\<forall>acc. accuracy_score L y_pred y_test = Inr acc \<longrightarrow> e' = e"
    by blast
  have body: "run_body L cfg X_train X_test y_train y_test
                 (events en @ [Set_tracking_uri (TRACKING_URI cfg),
                               Set_experiment (EXPERIMENT cfg), Start_run]) = Inl (e', tr')"
    using ft pr cm by (simp add: run_body_def bind_def lift_def emit_def run_prefix_def)
  have "get_trained_model L cfg w en = (Raised e', w, en\<lparr>events := tr' @ [End_run False]\<rparr>)"
    using sp body by (simp add: get_trained_model_def)
  with lg acc show ?thesis by auto
qed

subsection \<open>The argument order of the scores\<close>

text \<open>
  C9. Let the split, the fit and the prediction of a run succeed. If the run completes,
  the logged \<open>test_accuracy\<close>, \<open>roc_auc_score\<close>, \<open>Precision\<close>, \<open>Recall\<close> and \<open>f1\<close>
  are what the metric functions return with the predicted labels as their first argument,
  the position of the ground truth, and the actual test labels as their second. If
  \<open>roc_auc_score\<close> raises on a first argument of a single class, as scikit-learn's does,
  and the predicted labels are of a single class, the call fails whatever the actual test
  labels are: the run raises, nothing is logged, and the exception is that
  \<open>ValueError\<close> when the accuracy before it was computed.
\<close>

theorem get_trained_model_argument_order:
  assumes sp: "load_and_split L w en = Inr (X_train, X_test, y_train, y_test)"
    and ft: "fit L (model_config cfg) X_train y_train = Inr model"
    and pr: "predict L model X_test = Inr y_pred"
  shows "(\<forall>w' en'. get_trained_model L cfg w en = (Returned_None, w', en') \<longrightarrow>
            (\<exists>acc auc_score precision recall f1 new.
                accuracy_score L y_pred y_test = Inr acc
              \<and> roc_auc_score L y_pred y_test = Inr auc_score
              \<and> precision_score L Macro y_pred y_test = Inr precision
              \<and> recall_score L Macro y_pred y_test = Inr recall
              \<and> f1_score L Macro y_pred y_test = Inr f1
              \<and> events en' = events en @ new
              \<and> map_of (logged_metrics new) ''test_accuracy'' = Some (Score acc)
              \<and> map_of (logged_metrics new) ''roc_auc_score'' = Some (Score auc_score)
              \<and> map_of (logged_metrics new) ''Precision'' = Some (Score precision)
              \<and> map_of (logged_metrics new) ''Recall'' = Some (Score recall)
              \<and> map_of (logged_metrics new) ''f1'' = Some (Score f1)
              \<and> sklearn_calls ''roc_auc_score'' new = [(y_pred, y_test)]))
       \<and> (roc_auc_needs_two_classes L \<and> length (categories y_pred) = 1 \<longrightarrow>
            roc_auc_score L y_pred y_test = Inl ValueError
          \<and> (\<exists>e. fst (get_trained_model L cfg w en) = Raised e)
          \<and> logged_metrics (events (snd (snd (get_trained_model L cfg w en))))
              = logged_metrics (events en)
          \<and> (\<forall>acc. accuracy_score L y_pred y_test = Inr acc \<longrightarrow>
                fst (get_trained_model L cfg w en) = Raised ValueError))"
proof (intro conjI allI impI)
  fix w' en'
  assume run: "get_trained_model L cfg w en = (Returned_None, w', en')"
  from get_trained_model_completed [OF run] sp ft pr
  obtain ms tr1 where
    cm: "compute_metrics L y_pred y_test (events en @ run_prefix cfg model) = Inr (ms, tr1)"
    and ev: "events en' = tr1 @ map (\<lambda>(n, v). Log_metric n v) ms @ [End_run True]"
    by auto
  from compute_metrics_Inr [OF cm]
  obtain acc auc_score precision recall f1 class_zero class_one tn fn where
    a: "accuracy_score L y_pred y_test = Inr acc"
    and r: "roc_auc_score L y_pred y_test = Inr auc_score"
    and p: "precision_score L Macro y_pred y_test = Inr precision"
    and rc: "recall_score L Macro y_pred y_test = Inr recall"
    and f: "f1_score L Macro y_pred y_test = Inr f1"
    and ms: "ms = [(''roc_auc_score'', Score auc_score),
        (''test_accuracy'', Score acc),
        (''f1'', Score f1),
        (''Precision'', Score precision),
        (''Recall'', Score recall),
        (''Precision_0'', Score (fst class_zero)),
        (''Precision_1'', Score (fst class_one)),
        (''Recall_0'', Score (fst (snd class_zero))),
        (''Recall_1'', Score (fst (snd class_one))),
        (''f1_0'', Score (snd (snd class_zero))),
        (''f1_1'', Score (snd (snd class_one))),
        (''False Negative'', Count fn),
        (''True Negative'', Count tn)]"
    by blast
  note tr1 = compute_metrics_trace [OF cm]
  define new where "new = run_prefix cfg model @
                   [Sklearn ''accuracy_score'' y_pred y_test,
                    Sklearn ''roc_auc_score'' y_pred y_test,
                    Sklearn ''confusion_matrix'' y_pred y_test,
                    Sklearn ''precision_score'' y_pred y_test,
                    Sklearn ''recall_score'' y_pred y_test,
                    Sklearn ''f1_score'' y_pred y_test,
                    Sklearn ''confusion_matrix'' y_test y_pred,
                    Sklearn ''precision_recall_fscore_support'' y_test y_pred,
                    Sklearn ''precision_recall_fscore_support'' y_test y_pred]
                   @ map (\<lambda>(n, v). Log_metric n v) ms @ [End_run True]"
  have new: "events en' = events en @ new"
    unfolding new_def ev tr1 by simp
  have lg: "logged_metrics new = ms"
    unfolding new_def by simp
  have calls: "sklearn_calls ''roc_auc_score'' new = [(y_pred, y_test)]"
    unfolding new_def by simp
  have m: "map_of (logged_metrics new) ''test_accuracy'' = Some (Score acc)"
      "map_of (logged_metrics new) ''roc_auc_score'' = Some (Score auc_score)"
      "map_of (logged_metrics new) ''Precision'' = Some (Score precision)"
      "map_of (logged_metrics new) ''Recall'' = Some (Score recall)"
      "map_of (logged_metrics new) ''f1'' = Some (Score f1)"
    unfolding lg ms by simp_all
  from a r p rc f new m calls
  show "\<exists>acc auc_score precision recall f1 new.
                accuracy_score L y_pred y_test = Inr acc
              \<and> roc_auc_score L y_pred y_test = Inr auc_score
              \<and> precision_score L Macro y_pred y_test = Inr precision
              \<and> recall_score L Macro y_pred y_test = Inr recall
              \<and> f1_score L Macro y_pred y_test = Inr f1
              \<and> events en' = events en @ new
              \<and> map_of (logged_metrics new) ''test_accuracy'' = Some (Score acc)
              \<and> map_of (logged_metrics new) ''roc_auc_score'' = Some (Score auc_score)
              \<and> map_of (logged_metrics new) ''Precision'' = Some (Score precision)
              \<and> map_of (logged_metrics new) ''Recall'' = Some (Score recall)
              \<and> map_of (logged_metrics new) ''f1'' = Some (Score f1)
              \<and> sklearn_calls ''roc_auc_score'' new = [(y_pred, y_test)]"
    by blast
next
  assume h: "roc_auc_needs_two_classes L \<and> length (categories y_pred) = 1"
  then show roc: "roc_auc_score L y_pred y_test = Inl ValueError"
    by (simp add: roc_auc_needs_two_classes_def)
  from get_trained_model_roc_fails [OF sp ft pr roc]
  obtain e' tr' where
    run: "get_trained_model L cfg w en = (Raised e', w, en\<lparr>events := tr' @ [End_run False]\<rparr>)"
    and lg: "logged_metrics tr' = logged_metrics (events en)"
    and acc: "\<forall>acc. accuracy_score L y_pred y_test = Inr acc \<longrightarrow> e' = ValueError"
    by blast
  show "\<exists>e. fst (get_trained_model L cfg w en) = Raised e"
    unfolding run by simp
  show "logged_metrics (events (snd (snd (get_trained_model L cfg w en)))) = logged_metrics (events en)"
    unfolding run using lg by simp
  fix a
  assume "accuracy_score L y_pred y_test = Inr a"
  then show "fst (get_trained_model L cfg w en) = Raised ValueError"
    unfolding run using acc by simp
qed

lemma split10z: "load_and_split ref_libs (trained_world zs10 ys10) env0 =
  Inr (\<lparr>nrows = 7, cols = [(''x'', map IntV [1, 1, 0, 0, 1, 0, 1])]\<rparr>,
       \<lparr>nrows = 3, cols = [(''x'', map IntV [0, 0, 0])]\<rparr>,
       map IntV [1, 1, 0, 0, 1, 0, 1], map IntV [1, 1, 0])"
  by (simp add: ref_defs zs10_def ys10_def)

lemma ref_libs_roc: "roc_auc_needs_two_classes ref_libs"
  by (auto simp: roc_auc_needs_two_classes_def ref_libs_def ref_roc_auc_def length_Suc_conv
           split: list.splits)

theorem get_trained_model_argument_order_witness:
  "(\<exists>acc. accuracy_score ref_libs (map IntV [0, 1, 0]) (map IntV [1, 1, 0]) = Inr acc
        \<and> map_of (logged_metrics (events (snd (snd
              (get_trained_model ref_libs scenario_cfg (trained_world xs10 ys10) env0)))))
            ''test_accuracy'' = Some (Score acc))
   \<and> length (categories (map IntV [0, 0, 0])) = 1
   \<and> length (categories (map IntV [1, 1, 0])) = 2
   \<and> fst (get_trained_model ref_libs scenario_cfg (trained_world zs10 ys10) env0) = Raised ValueError"
proof -
  have run: "get_trained_model ref_libs scenario_cfg (trained_world xs10 ys10) env0 =
          (Returned_None, fst (snd (get_trained_model ref_libs scenario_cfg (trained_world xs10 ys10) env0)),
           snd (snd (get_trained_model ref_libs scenario_cfg (trained_world xs10 ys10) env0)))"
    using run10 by (metis prod.collapse)
  have one: "length (categories (map IntV [0, 0, 0])) = 1"
    and two: "length (categories (map IntV [1, 1, 0])) = 2"
    by (simp_all add: categories_def)
  have acc: "accuracy_score ref_libs (map IntV [0, 0, 0]) (map IntV [1, 1, 0]) = Inr (1 / 3)"
    by (simp add: ref_libs_def ref_accuracy_def)
  have a: "\<exists>acc. accuracy_score ref_libs (map IntV [0, 1, 0]) (map IntV [1, 1, 0]) = Inr acc
        \<and> map_of (logged_metrics (events (snd (snd
              (get_trained_model ref_libs scenario_cfg (trained_world xs10 ys10) env0)))))
            ''test_accuracy'' = Some (Score acc)"
  proof -
    note ao = get_trained_model_argument_order [OF split10 fit10 predict10, of scenario_cfg]
    from ao [THEN conjunct1, rule_format, OF run]
    obtain acc new where
      "accuracy_score ref_libs (map IntV [0, 1, 0]) (map IntV [1, 1, 0]) = Inr acc"
      and "events (snd (snd (get_trained_model ref_libs scenario_cfg (trained_world xs10 ys10) env0)))
             = events env0 @ new"
      and "map_of (logged_metrics new) ''test_accuracy'' = Some (Score acc)"
      by blast
    then show ?thesis
      by (auto simp: env0_def)
  qed
  have b: "fst (get_trained_model ref_libs scenario_cfg (trained_world zs10 ys10) env0) = Raised ValueError"
    using get_trained_model_argument_order [OF split10z fit10 predict10, of scenario_cfg]
      ref_libs_roc one acc
    by blast
  from a one two b show ?thesis by blast
qed

subsection \<open>The logged metrics\<close>

text \<open>
  C7, as stated, fails: not every invocation logs 13 metrics. An invocation on a store
  that has no \<open>features\<close> table, as before the encoder has run, raises when it reads
  the table, and no metric is logged.
\<close>

theorem get_trained_model_no_tables_counterexample:
  "get_trained_model ref_libs scenario_cfg (world_of scenario_input) env0 =
     (Raised DatabaseError, world_of scenario_input, env0)
   \<and> logged_metrics (events env0) = []"
  by (simp add: get_trained_model_def load_and_split_def world_of_def env0_def)

text \<open>
  C7, amended. An invocation of \<open>get_trained_model\<close> returns \<open>None\<close> or raises. One
  that returns has logged exactly 13 metrics, in this order: ROC-AUC, accuracy, macro F1,
  macro precision, macro recall, precision of class 0 and of class 1, recall of class 0
  and of class 1, F1 of class 0 and of class 1, the false-negative count and the
  true-negative count. The scores are the values the stated calls returned. The two
  counts are, for the first two of the sorted labels that occur among the actual and the
  predicted test labels, the number of test samples whose actual and predicted labels
  are the second and the first (false negatives), respectively the first and the first
  (true negatives). An invocation that raises has logged no metric, the calls to the
  tracking server being taken not to fail.
\<close>

theorem get_trained_model_logged_metrics:
  "(\<forall>w' en'. get_trained_model L cfg w en = (Returned_None, w', en') \<longrightarrow>
      (\<exists>X_train X_test y_train y_test model y_pred
          acc auc_score precision recall f1 class_zero class_one tn fn new.
           load_and_split L w en = Inr (X_train, X_test, y_train, y_test)
         \<and> fit L (model_config cfg) X_train y_train = Inr model
         \<and> predict L model X_test = Inr y_pred
         \<and> accuracy_score L y_pred y_test = Inr acc
         \<and> roc_auc_score L y_pred y_test = Inr auc_score
         \<and> precision_score L Macro y_pred y_test = Inr precision
         \<and> recall_score L Macro y_pred y_test = Inr recall
         \<and> f1_score L Macro y_pred y_test = Inr f1
         \<and> precision_recall_fscore_support L Binary (IntV 0) y_test y_pred = Inr class_zero
         \<and> precision_recall_fscore_support L Binary (IntV 1) y_test y_pred = Inr class_one
         \<and> length y_test = length y_pred
         \<and> 2 \<le> length (categories (y_test @ y_pred))
         \<and> tn = int (pair_count y_test y_pred (categories (y_test @ y_pred) ! 0)
                                              (categories (y_test @ y_pred) ! 0))
         \<and> fn = int (pair_count y_test y_pred (categories (y_test @ y_pred) ! 1)
                                              (categories (y_test @ y_pred) ! 0))
         \<and> events en' = events en @ new
         \<and> logged_metrics new =
              [(''roc_auc_score'', Score auc_score),
               (''test_accuracy'', Score acc),
               (''f1'', Score f1),
               (''Precision'', Score precision),
               (''Recall'', Score recall),
               (''Precision_0'', Score (fst class_zero)),
               (''Precision_1'', Score (fst class_one)),
               (''Recall_0'', Score (fst (snd class_zero))),
               (''Recall_1'', Score (fst (snd class_one))),
               (''f1_0'', Score (snd (snd class_zero))),
               (''f1_1'', Score (snd (snd class_one))),
               (''False Negative'', Count fn),
               (''True Negative'', Count tn)]
         \<and> length (logged_metrics new) = 13))
   \<and> (\<forall>e w' en'. get_trained_model L cfg w en = (Raised e, w', en') \<longrightarrow>
          logged_metrics (events en') = logged_metrics (events en))
   \<and> (\<forall>df. fst (get_trained_model L cfg w en) \<noteq> Returned df)"
proof (intro conjI allI impI)
  fix w' en'
  assume run: "get_trained_model L cfg w en = (Returned_None, w', en')"
  from get_trained_model_completed [OF run]
  obtain X_train X_test y_train y_test model y_pred ms tr1 where
    sp: "load_and_split L w en = Inr (X_train, X_test, y_train, y_test)"
    and ft: "fit L (model_config cfg) X_train y_train = Inr model"
    and pr: "predict L model X_test = Inr y_pred"
    and cm: "compute_metrics L y_pred y_test (events en @ run_prefix cfg model) = Inr (ms, tr1)"
    and ev: "events en' = tr1 @ map (\<lambda>(n, v). Log_metric n v) ms @ [End_run True]"
    by blast
  from compute_metrics_Inr [OF cm]
  obtain acc auc_score precision recall f1 class_zero class_one cm' tn fn where
    a: "accuracy_score L y_pred y_test = Inr acc"
    and r: "roc_auc_score L y_pred y_test = Inr auc_score"
    and p: "precision_score L Macro y_pred y_test = Inr precision"
    and rc: "recall_score L Macro y_pred y_test = Inr recall"
    and f: "f1_score L Macro y_pred y_test = Inr f1"
    and cz: "precision_recall_fscore_support L Binary (IntV 0) y_test y_pred = Inr class_zero"
    and co: "precision_recall_fscore_support L Binary (IntV 1) y_test y_pred = Inr class_one"
    and c: "confusion_matrix y_test y_pred = Inr cm'"
    and tn: "item cm' 0 0 = Inr tn" and fn: "item cm' 1 0 = Inr fn"
    and ms: "ms = [(''roc_auc_score'', Score auc_score),
        (''test_accuracy'', Score acc),
        (''f1'', Score f1),
        (''Precision'', Score precision),
        (''Recall'', Score recall),
        (''Precision_0'', Score (fst class_zero)),
        (''Precision_1'', Score (fst class_one)),
        (''Recall_0'', Score (fst (snd class_zero))),
        (''Recall_1'', Score (fst (snd class_one))),
        (''f1_0'', Score (snd (snd class_zero))),
        (''f1_1'', Score (snd (snd class_one))),
        (''False Negative'', Count fn),
        (''True Negative'', Count tn)]"
    by blast
  note tr1 = compute_metrics_trace [OF cm]
  define new where "new = drop (length (events en)) (events en')"
  have new: "events en' = events en @ new"
    unfolding new_def ev tr1 by simp
  have lg: "logged_metrics new = ms"
    unfolding new_def ev tr1 by simp
  have len: "length (logged_metrics new) = 13"
    unfolding lg ms by simp
  have eq: "length y_test = length y_pred"
    using c by (simp add: confusion_matrix_def split: if_splits)
  have two: "2 \<le> length (categories (y_test @ y_pred))"
    using confusion_matrix_item [OF c fn] by simp
  have tn': "tn = int (pair_count y_test y_pred (categories (y_test @ y_pred) ! 0)
                                                (categories (y_test @ y_pred) ! 0))"
    using confusion_matrix_item [OF c tn] by simp
  have fn': "fn = int (pair_count y_test y_pred (categories (y_test @ y_pred) ! 1)
                                                (categories (y_test @ y_pred) ! 0))"
    using confusion_matrix_item [OF c fn] by simp
  from sp ft pr a r p rc f cz co eq two tn' fn' new lg [unfolded ms] len
  show "\<exists>X_train X_test y_train y_test model y_pred
          acc auc_score precision recall f1 class_zero class_one tn fn new.
           load_and_split L w en = Inr (X_train, X_test, y_train, y_test)
         \<and> fit L (model_config cfg) X_train y_train = Inr model
         \<and> predict L model X_test = Inr y_pred
         \<and> accuracy_score L y_pred y_test = Inr acc
         \<and> roc_auc_score L y_pred y_test = Inr auc_score
         \<and> precision_score L Macro y_pred y_test = Inr precision
         \<and> recall_score L Macro y_pred y_test = Inr recall
         \<and> f1_score L Macro y_pred y_test = Inr f1
         \<and> precision_recall_fscore_support L Binary (IntV 0) y_test y_pred = Inr class_zero
         \<and> precision_recall_fscore_support L Binary (IntV 1) y_test y_pred = Inr class_one
         \<and> length y_test = length y_pred
         \<and> 2 \<le> length (categories (y_test @ y_pred))
         \<and> tn = int (pair_count y_test y_pred (categories (y_test @ y_pred) ! 0)
                                              (categories (y_test @ y_pred) ! 0))
         \<and> fn = int (pair_count y_test y_pred (categories (y_test @ y_pred) ! 1)
                                              (categories (y_test @ y_pred) ! 0))
         \<and> events en' = events en @ new
         \<and> logged_metrics new =
              [(''roc_auc_score'', Score auc_score),
               (''test_accuracy'', Score acc),
               (''f1'', Score f1),
               (''Precision'', Score precision),
               (''Recall'', Score recall),
               (''Precision_0'', Score (fst class_zero)),
               (''Precision_1'', Score (fst class_one)),
               (''Recall_0'', Score (fst (snd class_zero))),
               (''Recall_1'', Score (fst (snd class_one))),
               (''f1_0'', Score (snd (snd class_zero))),
               (''f1_1'', Score (snd (snd class_one))),
               (''False Negative'', Count fn),
               (''True Negative'', Count tn)]
         \<and> length (logged_metrics new) = 13"
    by blast
next
  fix e w' en'
  assume "get_trained_model L cfg w en = (Raised e, w', en')"
  then show "logged_metrics (events en') = logged_metrics (events en)"
    by (rule get_trained_model_raised)
next
  fix df
  show "fst (get_trained_model L cfg w en) \<noteq> Returned df"
    by (simp add: get_trained_model_def split: sum.splits prod.splits)
qed

lemma scores10:
  "accuracy_score ref_libs (map IntV [0, 1, 0]) (map IntV [1, 1, 0]) = Inr (2 / 3)"
  "roc_auc_score ref_libs (map IntV [0, 1, 0]) (map IntV [1, 1, 0]) = Inr (3 / 4)"
  "precision_score ref_libs Macro (map IntV [0, 1, 0]) (map IntV [1, 1, 0]) = Inr (3 / 4)"
  "recall_score ref_libs Macro (map IntV [0, 1, 0]) (map IntV [1, 1, 0]) = Inr (3 / 4)"
  "f1_score ref_libs Macro (map IntV [0, 1, 0]) (map IntV [1, 1, 0]) = Inr (2 / 3)"
  "precision_recall_fscore_support ref_libs Binary (IntV 0) (map IntV [1, 1, 0]) (map IntV [0, 1, 0])
     = Inr (1 / 2, 1, 2 / 3)"
  "precision_recall_fscore_support ref_libs Binary (IntV 1) (map IntV [1, 1, 0]) (map IntV [0, 1, 0])
     = Inr (1, 1 / 2, 2 / 3)"
  by (simp_all add: ref_defs)

lemma roc10z: "roc_auc_score ref_libs (map IntV [0, 0, 0]) (map IntV [1, 1, 0]) = Inl ValueError"
  by (simp add: ref_defs)

theorem get_trained_model_logged_metrics_witness:
  "logged_metrics (events (snd (snd
      (get_trained_model ref_libs scenario_cfg (trained_world xs10 ys10) env0)))) =
     [(''roc_auc_score'', Score (3 / 4)),
      (''test_accuracy'', Score (2 / 3)),
      (''f1'', Score (2 / 3)),
      (''Precision'', Score (3 / 4)),
      (''Recall'', Score (3 / 4)),
      (''Precision_0'', Score (1 / 2)),
      (''Precision_1'', Score 1),
      (''Recall_0'', Score 1),
      (''Recall_1'', Score (1 / 2)),
      (''f1_0'', Score (2 / 3)),
      (''f1_1'', Score (2 / 3)),
      (''False Negative'', Count 1),
      (''True Negative'', Count 1)]
   \<and> (\<exists>e. fst (get_trained_model ref_libs scenario_cfg (trained_world zs10 ys10) env0) = Raised e)
   \<and> logged_metrics (events (snd (snd
        (get_trained_model ref_libs scenario_cfg (trained_world zs10 ys10) env0)))) = []"
proof -
  let ?r = "get_trained_model ref_libs scenario_cfg (trained_world xs10 ys10) env0"
  let ?z = "get_trained_model ref_libs scenario_cfg (trained_world zs10 ys10) env0"
  have run: "?r = (Returned_None, fst (snd ?r), snd (snd ?r))"
    using run10 by (metis prod.collapse)
  note lm = get_trained_model_logged_metrics [of ref_libs scenario_cfg "trained_world xs10 ys10" env0]
  from lm [THEN conjunct1, rule_format, OF run]
  obtain X_train X_test y_train y_test model y_pred
          acc auc_score precision recall f1 class_zero class_one tn fn new where
    sp: "load_and_split ref_libs (trained_world xs10 ys10) env0 = Inr (X_train, X_test, y_train, y_test)"
    and ft: "fit ref_libs (model_config scenario_cfg) X_train y_train = Inr model"
    and pr: "predict ref_libs model X_test = Inr y_pred"
    and a: "accuracy_score ref_libs y_pred y_test = Inr acc"
    and r: "roc_auc_score ref_libs y_pred y_test = Inr auc_score"
    and p: "precision_score ref_libs Macro y_pred y_test = Inr precision"
    and rc: "recall_score ref_libs Macro y_pred y_test = Inr recall"
    and f: "f1_score ref_libs Macro y_pred y_test = Inr f1"
    and cz: "precision_recall_fscore_support ref_libs Binary (IntV 0) y_test y_pred = Inr class_zero"
    and co: "precision_recall_fscore_support ref_libs Binary (IntV 1) y_test y_pred = Inr class_one"
    and tn: "tn = int (pair_count y_test y_pred (categories (y_test @ y_pred) ! 0)
                                              (categories (y_test @ y_pred) ! 0))"
    and fn: "fn = int (pair_count y_test y_pred (categories (y_test @ y_pred) ! 1)
                                              (categories (y_test @ y_pred) ! 0))"
    and ev: "events (snd (snd ?r)) = events env0 @ new"
    and lg: "logged_metrics new =
              [(''roc_auc_score'', Score auc_score),
               (''test_accuracy'', Score acc),
               (''f1'', Score f1),
               (''Precision'', Score precision),
               (''Recall'', Score recall),
               (''Precision_0'', Score (fst class_zero)),
               (''Precision_1'', Score (fst class_one)),
               (''Recall_0'', Score (fst (snd class_zero))),
               (''Recall_1'', Score (fst (snd class_one))),
               (''f1_0'', Score (snd (snd class_zero))),
               (''f1_1'', Score (snd (snd class_one))),
               (''False Negative'', Count fn),
               (''True Negative'', Count tn)]"
    by blast
  from sp have yt: "y_test = map IntV [1, 1, 0]"
    and xt: "X_test = \<lparr>nrows = 3, cols = [(''x'', map IntV [0, 1, 0])]\<rparr>"
    and xr: "X_train = \<lparr>nrows = 7, cols = [(''x'', map IntV [1, 1, 0, 0, 1, 0, 1])]\<rparr>"
    unfolding split10 by auto
  from ft have md: "model = ''x''" unfolding xr fit10 by simp
  from pr have yp: "y_pred = map IntV [0, 1, 0]" unfolding md xt predict10 by simp
  have vals: "acc = 2 / 3" "auc_score = 3 / 4" "precision = 3 / 4" "recall = 3 / 4" "f1 = 2 / 3"
      "class_zero = (1 / 2, 1, 2 / 3)" "class_one = (1, 1 / 2, 2 / 3)"
    using a r p rc f cz co unfolding yt yp scores10 by simp_all
  have cnt: "tn = 1" "fn = 1"
    unfolding tn fn yt yp by (simp_all add: categories_def pair_count_def)
  have first: "logged_metrics (events (snd (snd ?r))) =
     [(''roc_auc_score'', Score (3 / 4)),
      (''test_accuracy'', Score (2 / 3)),
      (''f1'', Score (2 / 3)),
      (''Precision'', Score (3 / 4)),
      (''Recall'', Score (3 / 4)),
      (''Precision_0'', Score (1 / 2)),
      (''Precision_1'', Score 1),
      (''Recall_0'', Score 1),
      (''Recall_1'', Score (1 / 2)),
      (''f1_0'', Score (2 / 3)),
      (''f1_1'', Score (2 / 3)),
      (''False Negative'', Count 1),
      (''True Negative'', Count 1)]"
    unfolding ev using lg unfolding vals cnt by (simp add: env0_def)
  from get_trained_model_roc_fails [OF split10z fit10 predict10 roc10z, of scenario_cfg]
  obtain e' tr' where
    z: "?z = (Raised e', trained_world zs10 ys10, env0\<lparr>events := tr' @ [End_run False]\<rparr>)"
    by blast
  have raised: "\<exists>e. fst ?z = Raised e"
    unfolding z by simp
  have "logged_metrics (events (env0\<lparr>events := tr' @ [End_run False]\<rparr>)) = logged_metrics (events env0)"
    using get_trained_model_logged_metrics [of ref_libs scenario_cfg "trained_world zs10 ys10" env0] z
    by blast
  then have second: "logged_metrics (events (snd (snd ?z))) = []"
    unfolding z by (simp add: env0_def)
  from first raised second show ?thesis
    by blast
qed

end
